theory Spec2Isabelle
  imports Complex_Main
begin

section \<open>Python values and exceptions\<close>

text \<open>
  The values \<open>json.loads\<close> produces. A Python \<open>float\<close> is carried as a value of the
  type parameter \<open>'f\<close>: the model never computes with binary floating point. A \<open>dict\<close> is an
  association list read with \<open>map_of\<close> (its keys are strings, as JSON has them).
\<close>

datatype 'f json =
    JNull
  | JBool bool
  | JInt int
  | JFloat 'f
  | JStr string
  | JList "'f json list"
  | JObject "(string \<times> 'f json) list"

text \<open>
  An argument handed to a callback: a decoded value, or the builtin class \<open>dict\<close> itself
  (the default written in \<open>payload.get('buy_levels', dict)\<close>).
\<close>

datatype 'f pyobj = Value "'f json" | Class_dict

text \<open>
  Exception classes, each with its chain of base classes (\<open>mro\<close>). \<open>UserClass n b\<close> is a class
  named \<open>n\<close> that a caller of the library derived from \<open>b\<close>.
\<close>

datatype pyclass =
    BaseException
  | Exception
  | LookupError
  | KeyError
  | IndexError
  | ValueError
  | UnicodeError
  | UnicodeDecodeError
  | JSONDecodeError
  | TypeError
  | AttributeError
  | ArithmeticError
  | OverflowError
  | DecimalException
  | InvalidOperation
  | OSError
  | CryptologyError
  | UnsupportedMessageType
  | UnsupportedMessage
  | ConnectionClosed
  | UserClass string pyclass

text \<open>
  Modelled from the spec: the module \<open>cryptology/exceptions.py\<close> is not part of the sources.
  Its classes \<open>CryptologyError\<close>, \<open>UnsupportedMessageType\<close>, \<open>UnsupportedMessage\<close> and the
  spec's \<open>ConnectionClosed\<close> are taken as separate classes derived from \<open>Exception\<close>, as the
  spec's taxonomy lists them.
\<close>

fun mro :: "pyclass \<Rightarrow> pyclass list" where
  "mro BaseException = [BaseException]"
| "mro Exception = [Exception, BaseException]"
| "mro LookupError = [LookupError, Exception, BaseException]"
| "mro KeyError = [KeyError, LookupError, Exception, BaseException]"
| "mro IndexError = [IndexError, LookupError, Exception, BaseException]"
| "mro ValueError = [ValueError, Exception, BaseException]"
| "mro UnicodeError = [UnicodeError, ValueError, Exception, BaseException]"
| "mro UnicodeDecodeError =
     [UnicodeDecodeError, UnicodeError, ValueError, Exception, BaseException]"
| "mro JSONDecodeError = [JSONDecodeError, ValueError, Exception, BaseException]"
| "mro TypeError = [TypeError, Exception, BaseException]"
| "mro AttributeError = [AttributeError, Exception, BaseException]"
| "mro ArithmeticError = [ArithmeticError, Exception, BaseException]"
| "mro OverflowError = [OverflowError, ArithmeticError, Exception, BaseException]"
| "mro DecimalException = [DecimalException, ArithmeticError, Exception, BaseException]"
| "mro InvalidOperation =
     [InvalidOperation, DecimalException, ArithmeticError, Exception, BaseException]"
| "mro OSError = [OSError, Exception, BaseException]"
| "mro CryptologyError = [CryptologyError, Exception, BaseException]"
| "mro UnsupportedMessageType = [UnsupportedMessageType, Exception, BaseException]"
| "mro UnsupportedMessage = [UnsupportedMessage, Exception, BaseException]"
| "mro ConnectionClosed = [ConnectionClosed, Exception, BaseException]"
| "mro (UserClass n b) = UserClass n b # mro b"

definition issubclass :: "pyclass \<Rightarrow> pyclass \<Rightarrow> bool" where
  "issubclass c d = (d \<in> set (mro c))"

text \<open>
  A websocket message of aiohttp: \<open>WSMessage(type, data, extra)\<close>. For a text frame
  \<open>data\<close> is the payload as a \<open>str\<close>, for a binary frame the payload as \<open>bytes\<close> (one
  character of the model per byte); for a close frame \<open>data\<close> is the close code and
  \<open>extra\<close> the reason.
\<close>

datatype WSMsgType =
  CONTINUATION | TEXT | BINARY | PING | PONG | CLOSE | CLOSING | CLOSED | ERROR

datatype pyatom = PStr string | PBytes string | PInt int | PNone

record WSMessage =
  msg_type :: WSMsgType
  msg_data :: pyatom
  msg_extra :: pyatom

text \<open>
  An exception is its class and its arguments. The messages of the exceptions that the
  interpreter and the standard library raise are not modelled (their arguments are \<open>[]\<close>).
\<close>

datatype exc_arg = Atom pyatom | Msg WSMessage

datatype exc = Exc pyclass "exc_arg list"

fun exc_class :: "exc \<Rightarrow> pyclass" where
  "exc_class (Exc c args) = c"

definition isinstance :: "exc \<Rightarrow> pyclass list \<Rightarrow> bool" where
  "isinstance e cs = list_ex (issubclass (exc_class e)) cs"

definition and_then :: "exc + 'a \<Rightarrow> ('a \<Rightarrow> exc + 'b) \<Rightarrow> exc + 'b" where
  "and_then r f = (case r of Inl e \<Rightarrow> Inl e | Inr v \<Rightarrow> f v)"

section \<open>The standard library\<close>

subsection \<open>\<open>decimal.Decimal\<close>\<close>

text \<open>
  A \<open>Decimal\<close> is a sign, a coefficient and an exponent (the number
  \<open>\<plusminus> coefficient \<times> 10^exponent\<close>), or an infinity, or a NaN with its diagnostic digits.
\<close>

datatype decimal =
    Dec bool nat int
  | DecInf bool
  | DecNaN bool bool nat

fun dec_value :: "decimal \<Rightarrow> rat option" where
  "dec_value (Dec sg c e) =
     Some ((if sg then - 1 else 1) * of_nat c *
           (if 0 \<le> e then 10 ^ nat e else 1 / 10 ^ nat (- e)))"
| "dec_value (DecInf sg) = None"
| "dec_value (DecNaN sg sn d) = None"

record datetime =
  year :: int
  month :: int
  day :: int
  hour :: int
  minute :: int
  second :: int
  microsecond :: int

text \<open>
  What the program takes from outside. \<open>common.CLOSE_MESSAGES\<close> and the enumeration
  \<open>common.ServerMessageType\<close> live in a module that is not part of the sources
  (\<open>ServerMessageType\<close> lists the names of its members other than \<open>BROADCAST\<close>, which the
  program names). The other fields are the standard library where it is not modelled here:
  the JSON parser (\<open>None\<close> when the text is not valid JSON), the decoding of \<open>bytes\<close> that
  \<open>json.loads\<close> does first, in the encoding it detects among UTF-8, UTF-16 and UTF-32
  (\<open>None\<close> when the bytes do not decode), the conversions of a \<open>float\<close> and of a sequence,
  and the exception \<open>utcfromtimestamp\<close> raises for a timestamp outside the years 1 to 9999,
  which depends on the platform and on the timestamp's size (\<open>ValueError\<close>,
  \<open>OverflowError\<close> or \<open>OSError\<close>).
\<close>

record 'f env =
  CLOSE_MESSAGES :: "WSMsgType list"
  ServerMessageType :: "string list"
  json_loads :: "string \<Rightarrow> 'f json option"
  bytes_decode :: "string \<Rightarrow> string option"
  utcfromtimestamp_float :: "'f \<Rightarrow> exc + datetime"
  utcfromtimestamp_range_error :: "int \<Rightarrow> exc"
  Decimal_float :: "'f \<Rightarrow> exc + decimal"
  Decimal_sequence :: "'f json list \<Rightarrow> exc + decimal"

definition is_digit :: "char \<Rightarrow> bool" where
  "is_digit c = (c \<in> set ''0123456789'')"

definition digit_val :: "char \<Rightarrow> nat" where
  "digit_val c = of_char c - 48"

text \<open>\<open>int(s)\<close> on a string of digits (the empty string is read as 0 where the library
  writes \<open>int(s or '0')\<close>).\<close>

definition int_of_digits :: "string \<Rightarrow> nat" where
  "int_of_digits s = foldl (\<lambda>a c. 10 * a + digit_val c) 0 s"

text \<open>The characters \<open>str.strip()\<close> removes, among the characters below 256.\<close>

definition py_isspace :: "char \<Rightarrow> bool" where
  "py_isspace c = ((of_char c :: nat) \<in> {9, 10, 11, 12, 13, 28, 29, 30, 31, 32, 133, 160})"

definition strip :: "string \<Rightarrow> string" where
  "strip s = rev (dropWhile py_isspace (rev (dropWhile py_isspace s)))"

definition py_lower :: "char \<Rightarrow> char" where
  "py_lower c =
     (let n = (of_char c :: nat) in if 65 \<le> n \<and> n \<le> 90 then char_of (n + 32) else c)"

text \<open>The optional sign \<open>[-+]\<close> at the front of a string, and the rest.\<close>

fun take_sign :: "string \<Rightarrow> bool \<times> string" where
  "take_sign [] = (False, [])"
| "take_sign (c # r) =
     (if c = CHR ''-'' then (True, r) else if c = CHR ''+'' then (False, r) else (False, c # r))"

text \<open>The lookahead \<open>(?=\d|\.\d)\<close> of the library's pattern for a finite number.\<close>

fun starts_number :: "string \<Rightarrow> bool" where
  "starts_number [] = False"
| "starts_number [c] = is_digit c"
| "starts_number (c # d # r) = (is_digit c \<or> (c = CHR ''.'' \<and> is_digit d))"

text \<open>The optional fraction \<open>(\.(?P<frac>\d*))?\<close>: its digits, and the rest.\<close>

fun take_frac :: "string \<Rightarrow> string \<times> string" where
  "take_frac [] = ([], [])"
| "take_frac (c # r) =
     (if c = CHR ''.'' then (takeWhile is_digit r, dropWhile is_digit r) else ([], c # r))"

text \<open>The optional exponent \<open>(E(?P<exp>[-+]?\d+))?\<close> followed by the end of the string:
  \<open>None\<close> when the rest of the string is neither empty nor an exponent.\<close>

fun take_exp :: "string \<Rightarrow> int option" where
  "take_exp [] = Some 0"
| "take_exp (c # r) =
     (if py_lower c = CHR ''e'' then
        (case take_sign r of (sg, ds) \<Rightarrow>
           if ds \<noteq> [] \<and> list_all is_digit ds
           then Some ((if sg then - 1 else 1) * int (int_of_digits ds))
           else None)
      else None)"

text \<open>The special values of the pattern: \<open>Inf(inity)?\<close> and \<open>(s)?NaN\d*\<close>, any case.\<close>

definition Decimal_special :: "bool \<Rightarrow> string \<Rightarrow> exc + decimal" where
  "Decimal_special sg r =
     (let l = map py_lower r in
      if l = ''inf'' \<or> l = ''infinity'' then Inr (DecInf sg)
      else if take 3 l = ''nan'' \<and> list_all is_digit (drop 3 l)
        then Inr (DecNaN sg False (int_of_digits (drop 3 l)))
      else if take 4 l = ''snan'' \<and> list_all is_digit (drop 4 l)
        then Inr (DecNaN sg True (int_of_digits (drop 4 l)))
      else Inl (Exc InvalidOperation []))"

text \<open>
  \<open>Decimal(value)\<close> for a string, after the library's \<open>Decimal.__new__\<close>: strip the
  whitespace, drop the underscores, match the pattern; a string that does not match raises
  \<open>decimal.InvalidOperation\<close> (a subclass of \<open>ArithmeticError\<close>). The coefficient is
  \<open>int(intpart + fracpart)\<close> and the exponent \<open>exp - len(fracpart)\<close>: no digit is rounded.
  The bounds of the C implementation on the number of digits and on the exponent
  (beyond \<open>10^18\<close>) are not modelled.
\<close>

definition Decimal_str :: "string \<Rightarrow> exc + decimal" where
  "Decimal_str v =
     (case take_sign (filter (\<lambda>c. c \<noteq> CHR ''_'') (strip v)) of (sg, r) \<Rightarrow>
        if starts_number r then
          (let intpart = takeWhile is_digit r in
           case take_frac (dropWhile is_digit r) of (fracpart, r') \<Rightarrow>
             (case take_exp r' of
                None \<Rightarrow> Inl (Exc InvalidOperation [])
              | Some e \<Rightarrow>
                  Inr (Dec sg (int_of_digits (intpart @ fracpart)) (e - int (length fracpart)))))
        else Decimal_special sg r)"

fun Decimal :: "'f env \<Rightarrow> 'f json \<Rightarrow> exc + decimal" where
  "Decimal env (JStr s) = Decimal_str s"
| "Decimal env (JInt n) = Inr (Dec (n < 0) (nat \<bar>n\<bar>) 0)"
| "Decimal env (JBool b) = Inr (Dec False (if b then 1 else 0) 0)"
| "Decimal env (JFloat f) = Decimal_float env f"
| "Decimal env (JList xs) = Decimal_sequence env xs"
| "Decimal env JNull = Inl (Exc TypeError [])"
| "Decimal env (JObject kvs) = Inl (Exc TypeError [])"

subsection \<open>\<open>datetime.utcfromtimestamp\<close>\<close>

text \<open>The proleptic Gregorian calendar of the \<open>datetime\<close> module: day 1 is 0001-01-01.\<close>

definition is_leap :: "int \<Rightarrow> bool" where
  "is_leap y = (y mod 4 = 0 \<and> (y mod 100 \<noteq> 0 \<or> y mod 400 = 0))"

definition days_before_year :: "int \<Rightarrow> int" where
  "days_before_year y = (y - 1) * 365 + (y - 1) div 4 - (y - 1) div 100 + (y - 1) div 400"

text \<open>The tables of the module, with their placeholder at index 0.\<close>

definition DAYS_IN_MONTH :: "int list" where
  "DAYS_IN_MONTH = [- 1, 31, 28, 31, 30, 31, 30, 31, 31, 30, 31, 30, 31]"

definition DAYS_BEFORE_MONTH :: "int list" where
  "DAYS_BEFORE_MONTH = [- 1, 0, 31, 59, 90, 120, 151, 181, 212, 243, 273, 304, 334]"

definition days_in_month :: "int \<Rightarrow> int \<Rightarrow> int" where
  "days_in_month y m = (if m = 2 \<and> is_leap y then 29 else DAYS_IN_MONTH ! nat m)"

definition days_before_month :: "int \<Rightarrow> int \<Rightarrow> int" where
  "days_before_month y m = DAYS_BEFORE_MONTH ! nat m + (if 2 < m \<and> is_leap y then 1 else 0)"

text \<open>\<open>_ymd2ord\<close>: the ordinal of a date.\<close>

definition ymd2ord :: "int \<Rightarrow> int \<Rightarrow> int \<Rightarrow> int" where
  "ymd2ord y m d = days_before_year y + days_before_month y m + d"

text \<open>The end of \<open>_ord2ymd\<close>: month and day of the \<open>n\<close>-th day of a year, counted from 0,
  from the estimate \<open>(n + 50) >> 5\<close> of the month, which is right or one too large.\<close>

definition yday2md :: "bool \<Rightarrow> int \<Rightarrow> int \<times> int" where
  "yday2md leapyear n =
     (let month = (n + 50) div 32;
          preceding = DAYS_BEFORE_MONTH ! nat month + (if 2 < month \<and> leapyear then 1 else 0)
      in if n < preceding
         then (month - 1,
               n - (preceding - (DAYS_IN_MONTH ! nat (month - 1)
                                  + (if month - 1 = 2 \<and> leapyear then 1 else 0))) + 1)
         else (month, n - preceding + 1))"

text \<open>\<open>_ord2ymd\<close>: the date of an ordinal, by cycles of 400, 100, 4 and 1 years.\<close>

definition ord2ymd :: "int \<Rightarrow> int \<times> int \<times> int" where
  "ord2ymd n0 =
     (let n = n0 - 1;
          n400 = n div 146097; n = n mod 146097;
          n100 = n div 36524; n = n mod 36524;
          n4 = n div 1461; n = n mod 1461;
          n1 = n div 365; n = n mod 365;
          y = n400 * 400 + 1 + n100 * 100 + n4 * 4 + n1
      in if n1 = 4 \<or> n100 = 4 then (y - 1, 12, 31)
         else (case yday2md (n1 = 3 \<and> (n4 \<noteq> 24 \<or> n100 = 3)) n of (m, d) \<Rightarrow> (y, m, d)))"

text \<open>
  \<open>datetime.utcfromtimestamp(t)\<close> for an integer \<open>t\<close>: the naive \<open>datetime\<close> of the UTC
  calendar time \<open>t\<close> seconds after 1970-01-01T00:00:00 (ordinal 719163), without leap
  seconds, as POSIX \<open>gmtime\<close> counts. The years of a \<open>datetime\<close> are 1 to 9999.
\<close>

definition utcfromtimestamp_int :: "'f env \<Rightarrow> int \<Rightarrow> exc + datetime" where
  "utcfromtimestamp_int env t =
     (if t < - 62135596800 \<or> 253402300799 < t then Inl (utcfromtimestamp_range_error env t)
      else
        (case ord2ymd (t div 86400 + 719163) of (y, m, d) \<Rightarrow>
           Inr \<lparr>year = y, month = m, day = d,
                hour = t mod 86400 div 3600, minute = t mod 3600 div 60, second = t mod 60,
                microsecond = 0\<rparr>))"

fun utcfromtimestamp :: "'f env \<Rightarrow> 'f json \<Rightarrow> exc + datetime" where
  "utcfromtimestamp env (JInt t) = utcfromtimestamp_int env t"
| "utcfromtimestamp env (JBool b) = utcfromtimestamp_int env (if b then 1 else 0)"
| "utcfromtimestamp env (JFloat f) = utcfromtimestamp_float env f"
| "utcfromtimestamp env JNull = Inl (Exc TypeError [])"
| "utcfromtimestamp env (JStr s) = Inl (Exc TypeError [])"
| "utcfromtimestamp env (JList xs) = Inl (Exc TypeError [])"
| "utcfromtimestamp env (JObject kvs) = Inl (Exc TypeError [])"

subsection \<open>Subscription, \<open>dict.get\<close>, the enumeration\<close>

text \<open>\<open>obj[k]\<close> for a string \<open>k\<close>: only a \<open>dict\<close> can be subscripted by a string.\<close>

fun getitem :: "'f json \<Rightarrow> string \<Rightarrow> exc + 'f json" where
  "getitem (JObject kvs) k =
     (case map_of kvs k of None \<Rightarrow> Inl (Exc KeyError []) | Some v \<Rightarrow> Inr v)"
| "getitem JNull k = Inl (Exc TypeError [])"
| "getitem (JBool b) k = Inl (Exc TypeError [])"
| "getitem (JInt n) k = Inl (Exc TypeError [])"
| "getitem (JFloat f) k = Inl (Exc TypeError [])"
| "getitem (JStr s) k = Inl (Exc TypeError [])"
| "getitem (JList xs) k = Inl (Exc TypeError [])"

text \<open>\<open>obj[0]\<close>: the first element of a list, the first character of a string; a \<open>dict\<close>
  of JSON has no key \<open>0\<close>.\<close>

fun getitem0 :: "'f json \<Rightarrow> exc + 'f json" where
  "getitem0 (JList []) = Inl (Exc IndexError [])"
| "getitem0 (JList (x # xs)) = Inr x"
| "getitem0 (JStr []) = Inl (Exc IndexError [])"
| "getitem0 (JStr (c # s)) = Inr (JStr [c])"
| "getitem0 (JObject kvs) = Inl (Exc KeyError [])"
| "getitem0 JNull = Inl (Exc TypeError [])"
| "getitem0 (JBool b) = Inl (Exc TypeError [])"
| "getitem0 (JInt n) = Inl (Exc TypeError [])"
| "getitem0 (JFloat f) = Inl (Exc TypeError [])"

text \<open>\<open>obj.get(k, default)\<close>: defined on a \<open>dict\<close> only.\<close>

fun dict_get :: "'f json \<Rightarrow> string \<Rightarrow> 'f pyobj \<Rightarrow> exc + 'f pyobj" where
  "dict_get (JObject kvs) k dflt =
     (case map_of kvs k of None \<Rightarrow> Inr dflt | Some v \<Rightarrow> Inr (Value v))"
| "dict_get JNull k dflt = Inl (Exc AttributeError [])"
| "dict_get (JBool b) k dflt = Inl (Exc AttributeError [])"
| "dict_get (JInt n) k dflt = Inl (Exc AttributeError [])"
| "dict_get (JFloat f) k dflt = Inl (Exc AttributeError [])"
| "dict_get (JStr s) k dflt = Inl (Exc AttributeError [])"
| "dict_get (JList xs) k dflt = Inl (Exc AttributeError [])"

text \<open>
  \<open>common.ServerMessageType[name]\<close>: the member of that name (written as its name), a
  \<open>KeyError\<close> when there is none, a \<open>TypeError\<close> when \<open>name\<close> cannot be hashed.
\<close>

fun ServerMessageType_getitem :: "'f env \<Rightarrow> 'f json \<Rightarrow> exc + string" where
  "ServerMessageType_getitem env (JStr s) =
     (if s = ''BROADCAST'' \<or> s \<in> set (ServerMessageType env) then Inr s
      else Inl (Exc KeyError []))"
| "ServerMessageType_getitem env (JList xs) = Inl (Exc TypeError [])"
| "ServerMessageType_getitem env (JObject kvs) = Inl (Exc TypeError [])"
| "ServerMessageType_getitem env JNull = Inl (Exc KeyError [])"
| "ServerMessageType_getitem env (JBool b) = Inl (Exc KeyError [])"
| "ServerMessageType_getitem env (JInt n) = Inl (Exc KeyError [])"
| "ServerMessageType_getitem env (JFloat f) = Inl (Exc KeyError [])"

text \<open>
  \<open>json.loads(data)\<close>. A \<open>str\<close> that is not valid JSON raises \<open>json.JSONDecodeError\<close>.
  \<open>bytes\<close> are decoded first: bytes that do not decode raise \<open>UnicodeDecodeError\<close>, and the
  decoded text is then parsed like a \<open>str\<close>. Both classes derive from \<open>ValueError\<close>. An
  argument that is neither raises \<open>TypeError\<close>.
\<close>

fun loads :: "'f env \<Rightarrow> pyatom \<Rightarrow> exc + 'f json" where
  "loads env (PStr s) =
     (case json_loads env s of None \<Rightarrow> Inl (Exc JSONDecodeError []) | Some v \<Rightarrow> Inr v)"
| "loads env (PBytes b) =
     (case bytes_decode env b of
        None \<Rightarrow> Inl (Exc UnicodeDecodeError [])
      | Some s \<Rightarrow>
          (case json_loads env s of None \<Rightarrow> Inl (Exc JSONDecodeError []) | Some v \<Rightarrow> Inr v))"
| "loads env (PInt n) = Inl (Exc TypeError [])"
| "loads env PNone = Inl (Exc TypeError [])"

section \<open>\<open>market_data_client.py\<close>\<close>

text \<open>
  Modelled from the spec: \<open>exceptions.handle_close_message\<close> is not part of the sources.
  The spec's decoder "fails with \<open>ConnectionClosed\<close> (carrying the close code/reason)"
  for every frame of a close, error or unsupported-control kind.
\<close>

definition handle_close_message :: "WSMessage \<Rightarrow> exc + unit" where
  "handle_close_message msg =
     Inl (Exc ConnectionClosed [Atom (msg_data msg), Atom (msg_extra msg)])"

text \<open>\<open>receive_msg\<close>, applied to the message \<open>ws.receive()\<close> returned.\<close>

definition receive_msg :: "'f env \<Rightarrow> WSMessage \<Rightarrow> exc + 'f json" where
  "receive_msg env msg =
     (if msg_type msg \<in> set (CLOSE_MESSAGES env) then
        (case handle_close_message msg of
           Inl e \<Rightarrow> Inl e
         | Inr u \<Rightarrow> Inl (Exc UnsupportedMessage [Msg msg]))
      else loads env (msg_data msg))"

text \<open>
  The calls the loop makes to its callbacks, in the order it makes them. The market-data
  callback is awaited; an order-book or trades call is handed to \<open>asyncio.ensure_future\<close>
  and its body is not part of the loop.
\<close>

datatype 'f call =
    MarketDataCall "'f json"
  | OrderBookCall "'f json" "'f json" "'f pyobj" "'f pyobj"
  | TradesCall datetime "'f json" "'f json" decimal decimal

text \<open>
  The market-data callback is a function of the payload and of the state \<open>'s\<close> of the
  caller's program: it returns the new state, and the exception it raised if it raised one.
  It is taken to leave the payload it is handed as it is. The two scheduled callbacks are
  \<open>True\<close> when registered (not \<open>None\<close>).
\<close>

type_synonym ('f, 's) market_data_callback = "'f json \<Rightarrow> 's \<Rightarrow> exc option \<times> 's"

text \<open>Lines 41 to 44 of \<open>reader_loop\<close>: the payload of a broadcast envelope.\<close>

definition envelope_payload :: "'f env \<Rightarrow> 'f json \<Rightarrow> exc + 'f json" where
  "envelope_payload env msg =
     and_then (getitem msg ''response_type'') (\<lambda>response_type.
     and_then (ServerMessageType_getitem env response_type) (\<lambda>message_type.
       if message_type \<noteq> ''BROADCAST'' then Inl (Exc UnsupportedMessageType [])
       else getitem msg ''data''))"

text \<open>Lines 47 to 65: the calls scheduled for a payload.\<close>

definition dispatch :: "'f env \<Rightarrow> bool \<Rightarrow> bool \<Rightarrow> 'f json \<Rightarrow> exc + 'f call list" where
  "dispatch env order_book_callback trades_callback payload =
     and_then (getitem payload ''@type'') (\<lambda>t.
       if t = JStr ''OrderBookAgg'' then
         (if order_book_callback then
            and_then (getitem payload ''current_order_id'') (\<lambda>current_order_id.
            and_then (getitem payload ''trade_pair'') (\<lambda>trade_pair.
            and_then (dict_get payload ''buy_levels'' Class_dict) (\<lambda>buy_levels.
            and_then (dict_get payload ''sell_levels'' Class_dict) (\<lambda>sell_levels.
              Inr [OrderBookCall current_order_id trade_pair buy_levels sell_levels]))))
          else Inr [])
       else
         and_then (getitem payload ''@type'') (\<lambda>t'.
           if t' = JStr ''AnonymousTrade'' then
             (if trades_callback then
                and_then (getitem payload ''time'') (\<lambda>time.
                and_then (getitem0 time) (\<lambda>time0.
                and_then (utcfromtimestamp env time0) (\<lambda>timestamp.
                and_then (getitem payload ''current_order_id'') (\<lambda>current_order_id.
                and_then (getitem payload ''trade_pair'') (\<lambda>trade_pair.
                and_then (getitem payload ''amount'') (\<lambda>amount.
                and_then (Decimal env amount) (\<lambda>amount_dec.
                and_then (getitem payload ''price'') (\<lambda>price.
                and_then (Decimal env price) (\<lambda>price_dec.
                  Inr [TradesCall timestamp current_order_id trade_pair
                         amount_dec price_dec])))))))))
              else Inr [])
           else Inl (Exc UnsupportedMessageType [])))"

text \<open>
  The body of the \<open>try\<close> (lines 41 to 65) for one decoded message: the state after it, the
  calls made, and the exception raised inside it, if any.
\<close>

definition reader_loop_try ::
  "'f env \<Rightarrow> ('f, 's) market_data_callback option \<Rightarrow> bool \<Rightarrow> bool \<Rightarrow> 'f json \<Rightarrow> 's
     \<Rightarrow> 's \<times> 'f call list \<times> exc option" where
  "reader_loop_try env market_data_callback order_book_callback trades_callback msg s =
     (case envelope_payload env msg of
        Inl e \<Rightarrow> (s, [], Some e)
      | Inr payload \<Rightarrow>
          (case market_data_callback of
             None \<Rightarrow>
               (case dispatch env order_book_callback trades_callback payload of
                  Inl e \<Rightarrow> (s, [], Some e)
                | Inr cs \<Rightarrow> (s, cs, None))
           | Some cb \<Rightarrow>
               (case cb payload s of
                  (Some e, s') \<Rightarrow> (s', [MarketDataCall payload], Some e)
                | (None, s') \<Rightarrow>
                    (case dispatch env order_book_callback trades_callback payload of
                       Inl e \<Rightarrow> (s', [MarketDataCall payload], Some e)
                     | Inr cs \<Rightarrow> (s', MarketDataCall payload # cs, None)))))"

text \<open>The clause \<open>except (KeyError, ValueError, exceptions.UnsupportedMessageType)\<close>
  (lines 66 to 68): the exception that leaves the \<open>try\<close> statement.\<close>

definition failed_to_decode_data :: exc where
  "failed_to_decode_data = Exc CryptologyError [Atom (PStr ''failed to decode data'')]"

definition reader_loop_except :: "exc \<Rightarrow> exc" where
  "reader_loop_except e =
     (if isinstance e [KeyError, ValueError, UnsupportedMessageType]
      then failed_to_decode_data
      else e)"

text \<open>
  The loop over the messages the connection delivers. It ends only by an exception; when
  the messages delivered so far are all handled, it is waiting in \<open>ws.receive()\<close>.
  Failures of the connection itself (a timeout of \<open>ws.receive\<close>) are outside the model.
\<close>

datatype outcome = Raised exc | Receiving

fun reader_loop ::
  "'f env \<Rightarrow> ('f, 's) market_data_callback option \<Rightarrow> bool \<Rightarrow> bool \<Rightarrow> WSMessage list \<Rightarrow> 's
     \<Rightarrow> 's \<times> 'f call list \<times> outcome" where
  "reader_loop env market_data_callback order_book_callback trades_callback [] s =
     (s, [], Receiving)"
| "reader_loop env market_data_callback order_book_callback trades_callback (m # ws) s =
     (case receive_msg env m of
        Inl e \<Rightarrow> (s, [], Raised e)
      | Inr msg \<Rightarrow>
          (case reader_loop_try env market_data_callback order_book_callback
                  trades_callback msg s of
             (s', cs, Some e) \<Rightarrow> (s', cs, Raised (reader_loop_except e))
           | (s', cs, None) \<Rightarrow>
               (case reader_loop env market_data_callback order_book_callback
                       trades_callback ws s' of
                  (s'', cs', out) \<Rightarrow> (s'', cs @ cs', out))))"

text \<open>\<open>run\<close>, once the session and the connection to \<open>ws_addr\<close> are open: the loop on
  the messages of that connection; the context managers of the session and of the
  connection let its exception through.\<close>

definition run ::
  "'f env \<Rightarrow> WSMessage list \<Rightarrow> ('f, 's) market_data_callback option \<Rightarrow> bool \<Rightarrow> bool \<Rightarrow> 's
     \<Rightarrow> 's \<times> 'f call list \<times> outcome" where
  "run env ws market_data_callback order_book_callback trades_callback s =
     reader_loop env market_data_callback order_book_callback trades_callback ws s"

section \<open>The words of the spec\<close>

text \<open>
  Following the spec's words: "the UTC calendar time for \<open>time[0]\<close> seconds since
  epoch". A calendar time is a date of the calendar with a time of day, and it is \<open>timegm\<close>
  seconds after 1970-01-01T00:00:00 (the day of ordinal 719163), every day having 86400
  seconds.
\<close>

definition valid_datetime :: "datetime \<Rightarrow> bool" where
  "valid_datetime dt =
     (1 \<le> year dt \<and> year dt \<le> 9999 \<and> 1 \<le> month dt \<and> month dt \<le> 12
      \<and> 1 \<le> day dt \<and> day dt \<le> days_in_month (year dt) (month dt)
      \<and> 0 \<le> hour dt \<and> hour dt < 24 \<and> 0 \<le> minute dt \<and> minute dt < 60
      \<and> 0 \<le> second dt \<and> second dt < 60
      \<and> 0 \<le> microsecond dt \<and> microsecond dt < 1000000)"

definition timegm :: "datetime \<Rightarrow> int" where
  "timegm dt =
     (ymd2ord (year dt) (month dt) (day dt) - 719163) * 86400
       + hour dt * 3600 + minute dt * 60 + second dt"

text \<open>
  Following the spec's words: a text or binary frame whose "payload is not valid
  structured data". The payload of a text frame is not valid when it is not the text of a
  JSON value; the payload of a binary frame, when its bytes are not the encoding of a text
  or that text is not the text of a JSON value.
\<close>

fun not_valid_JSON :: "'f env \<Rightarrow> pyatom \<Rightarrow> bool" where
  "not_valid_JSON env (PStr s) = (json_loads env s = None)"
| "not_valid_JSON env (PBytes b) =
     (case bytes_decode env b of None \<Rightarrow> True | Some s \<Rightarrow> json_loads env s = None)"
| "not_valid_JSON env (PInt n) = False"
| "not_valid_JSON env PNone = False"

text \<open>
  Following the spec's words: "decimals exactly equal to their string representation".
  A decimal numeral on the wire is an optional minus sign, the digits of the integer part
  and, after a point, the digits of the fraction; it denotes the number its digits spell,
  each digit weighted by the power of ten of its place.
\<close>

definition decimal_text :: "bool \<Rightarrow> string \<Rightarrow> string \<Rightarrow> string" where
  "decimal_text neg ip fp =
     (if neg then ''-'' else []) @ ip @ (if fp = [] then [] else CHR ''.'' # fp)"

fun digits_value :: "string \<Rightarrow> rat" where
  "digits_value [] = 0"
| "digits_value (c # cs) = of_nat (digit_val c) * 10 ^ length cs + digits_value cs"

fun fraction_value :: "string \<Rightarrow> rat" where
  "fraction_value [] = 0"
| "fraction_value (c # cs) = (of_nat (digit_val c) + fraction_value cs) / 10"

definition decimal_text_value :: "bool \<Rightarrow> string \<Rightarrow> string \<Rightarrow> rat" where
  "decimal_text_value neg ip fp =
     (if neg then - 1 else 1) * (digits_value ip + fraction_value fp)"

section \<open>Example messages\<close>

text \<open>The envelope of the spec's concrete scenario, as text and decoded.\<close>

definition trade_text :: string where
  \<open>trade_text = ''{"response_type":"BROADCAST","data":{"@type":"AnonymousTrade","time":[1700000000],"current_order_id":42,"trade_pair":"BTC_USD","amount":"1.5","price":"30000.25"}}''\<close>

definition trade_payload :: "unit json" where
  "trade_payload =
     JObject [(''@type'', JStr ''AnonymousTrade''), (''time'', JList [JInt 1700000000]),
              (''current_order_id'', JInt 42), (''trade_pair'', JStr ''BTC_USD''),
              (''amount'', JStr ''1.5''), (''price'', JStr ''30000.25'')]"

definition trade_envelope :: "unit json" where
  "trade_envelope = JObject [(''response_type'', JStr ''BROADCAST''), (''data'', trade_payload)]"

text \<open>The same trade with an amount that is no decimal numeral.\<close>

definition bad_amount_text :: string where
  \<open>bad_amount_text = ''{"response_type":"BROADCAST","data":{"@type":"AnonymousTrade","time":[1700000000],"current_order_id":42,"trade_pair":"BTC_USD","amount":"abc","price":"30000.25"}}''\<close>

definition bad_amount_payload :: "unit json" where
  "bad_amount_payload =
     JObject [(''@type'', JStr ''AnonymousTrade''), (''time'', JList [JInt 1700000000]),
              (''current_order_id'', JInt 42), (''trade_pair'', JStr ''BTC_USD''),
              (''amount'', JStr ''abc''), (''price'', JStr ''30000.25'')]"

definition bad_amount_envelope :: "unit json" where
  "bad_amount_envelope =
     JObject [(''response_type'', JStr ''BROADCAST''), (''data'', bad_amount_payload)]"

text \<open>An order-book update without the key \<open>buy_levels\<close>.\<close>

definition order_book_text :: string where
  \<open>order_book_text = ''{"response_type":"BROADCAST","data":{"@type":"OrderBookAgg","current_order_id":7,"trade_pair":"BTC_USD","sell_levels":{"30000.5":"2"}}}''\<close>

definition order_book_payload :: "unit json" where
  "order_book_payload =
     JObject [(''@type'', JStr ''OrderBookAgg''), (''current_order_id'', JInt 7),
              (''trade_pair'', JStr ''BTC_USD''),
              (''sell_levels'', JObject [(''30000.5'', JStr ''2'')])]"

definition order_book_envelope :: "unit json" where
  "order_book_envelope =
     JObject [(''response_type'', JStr ''BROADCAST''), (''data'', order_book_payload)]"

text \<open>A broadcast of an unknown kind, and an envelope of another category.\<close>

definition ticker_text :: string where
  \<open>ticker_text = ''{"response_type":"BROADCAST","data":{"@type":"Ticker"}}''\<close>

definition ticker_payload :: "unit json" where
  "ticker_payload = JObject [(''@type'', JStr ''Ticker'')]"

definition ticker_envelope :: "unit json" where
  "ticker_envelope = JObject [(''response_type'', JStr ''BROADCAST''), (''data'', ticker_payload)]"

definition control_text :: string where
  \<open>control_text = ''{"response_type":"MESSAGE","data":{}}''\<close>

definition control_envelope :: "unit json" where
  "control_envelope = JObject [(''response_type'', JStr ''MESSAGE''), (''data'', JObject [])]"

text \<open>A text that is not JSON.\<close>

definition malformed_text :: string where
  \<open>malformed_text = ''{"response_type":''\<close>

text \<open>
  An environment for the examples: the close kinds of aiohttp, one more category beside
  \<open>BROADCAST\<close>, a JSON parser that knows the texts above, and a decoder that knows the
  ASCII bytes 1 to 127 (each the character of its code, in UTF-8) and refuses the rest;
  the only other byte of the examples is 255, which starts no UTF-8 sequence. No example
  reaches a \<open>float\<close>, a sequence given to \<open>Decimal\<close> or a timestamp out of range.
\<close>

definition example_env :: "unit env" where
  "example_env =
     \<lparr>CLOSE_MESSAGES = [CLOSE, CLOSING, CLOSED, ERROR],
      ServerMessageType = [''MESSAGE''],
      json_loads = map_of [(trade_text, trade_envelope), (bad_amount_text, bad_amount_envelope),
                           (order_book_text, order_book_envelope),
                           (ticker_text, ticker_envelope), (control_text, control_envelope)],
      bytes_decode =
        (\<lambda>b. if list_all (\<lambda>c. 1 \<le> (of_char c :: nat) \<and> (of_char c :: nat) \<le> 127) b
             then Some b else None),
      utcfromtimestamp_float = (\<lambda>f. Inl (Exc OverflowError [])),
      utcfromtimestamp_range_error = (\<lambda>t. Exc OverflowError []),
      Decimal_float = (\<lambda>f. Inr (Dec False 0 0)),
      Decimal_sequence = (\<lambda>xs. Inl (Exc ValueError []))\<rparr>"

definition text_frame :: "string \<Rightarrow> WSMessage" where
  "text_frame s = \<lparr>msg_type = TEXT, msg_data = PStr s, msg_extra = PNone\<rparr>"

definition binary_frame :: "string \<Rightarrow> WSMessage" where
  "binary_frame b = \<lparr>msg_type = BINARY, msg_data = PBytes b, msg_extra = PNone\<rparr>"

definition close_frame :: WSMessage where
  "close_frame = \<lparr>msg_type = CLOSE, msg_data = PInt 1000, msg_extra = PStr ''bye''\<rparr>"

text \<open>A market-data callback that counts its calls, and one that counts them and raises
  the given exception from its second call on.\<close>

definition counting_callback :: "(unit, nat) market_data_callback" where
  "counting_callback payload n = (None, Suc n)"

definition raising_callback :: "exc \<Rightarrow> (unit, nat) market_data_callback" where
  "raising_callback e payload n = (if n = 0 then None else Some e, Suc n)"

fun is_MarketDataCall :: "'f call \<Rightarrow> bool" where
  "is_MarketDataCall (MarketDataCall p) = True"
| "is_MarketDataCall (OrderBookCall a b c d) = False"
| "is_MarketDataCall (TradesCall t a b c d) = False"

section \<open>Properties\<close>

lemma and_then_Inr [simp]: "and_then (Inr v) f = f v"
  by (simp add: and_then_def)

lemma and_then_Inl [simp]: "and_then (Inl e) f = Inl e"
  by (simp add: and_then_def)

subsection \<open>The loop on a longer connection\<close>

lemma reader_loop_append:
  "reader_loop env md ob tr ws s = (s', cs, Receiving) \<Longrightarrow>
   reader_loop env md ob tr (ws @ ws') s =
     (case reader_loop env md ob tr ws' s' of (s'', cs', out) \<Rightarrow> (s'', cs @ cs', out))"
proof (induction ws arbitrary: s cs)
  case Nil
  then show ?case by (auto split: prod.splits)
next
  case (Cons m ws)
  then show ?case
    by (auto split: sum.splits prod.splits option.splits)
qed

lemma reader_loop_receive_raises:
  assumes "reader_loop env md ob tr ws s = (s', cs, Receiving)"
    and "receive_msg env m = Inl e"
  shows "reader_loop env md ob tr (ws @ m # ws') s = (s', cs, Raised e)"
  using assms by (simp add: reader_loop_append)

lemma reader_loop_try_raises:
  assumes "reader_loop env md ob tr ws s = (s', cs, Receiving)"
    and "receive_msg env m = Inr msg"
    and "reader_loop_try env md ob tr msg s' = (s'', cs', Some e)"
  shows "reader_loop env md ob tr (ws @ m # ws') s =
           (s'', cs @ cs', Raised (reader_loop_except e))"
  using assms by (simp add: reader_loop_append)

text \<open>Once the loop has raised, no later message changes anything.\<close>

lemma reader_loop_raised_prefix:
  "reader_loop env md ob tr ws s = (s', cs, Raised e) \<Longrightarrow>
   reader_loop env md ob tr (ws @ ws') s = (s', cs, Raised e)"
proof (induction ws arbitrary: s cs)
  case Nil
  then show ?case by simp
next
  case (Cons m ws)
  then show ?case
    by (auto split: sum.splits prod.splits option.splits)
qed

subsection \<open>The examples, evaluated\<close>

lemma loads_examples:
  "json_loads example_env trade_text = Some trade_envelope"
  "json_loads example_env bad_amount_text = Some bad_amount_envelope"
  "json_loads example_env order_book_text = Some order_book_envelope"
  "json_loads example_env ticker_text = Some ticker_envelope"
  "json_loads example_env control_text = Some control_envelope"
  "json_loads example_env malformed_text = None"
  by (simp_all add: example_env_def trade_text_def bad_amount_text_def order_book_text_def
      ticker_text_def control_text_def malformed_text_def)

lemma receive_msg_text_frame:
  "receive_msg example_env (text_frame s) = loads example_env (PStr s)"
  by (simp add: receive_msg_def example_env_def text_frame_def)

lemma receive_msg_examples:
  "receive_msg example_env (text_frame trade_text) = Inr trade_envelope"
  "receive_msg example_env (text_frame bad_amount_text) = Inr bad_amount_envelope"
  "receive_msg example_env (text_frame order_book_text) = Inr order_book_envelope"
  "receive_msg example_env (text_frame ticker_text) = Inr ticker_envelope"
  "receive_msg example_env (text_frame control_text) = Inr control_envelope"
  by (simp_all add: receive_msg_text_frame loads_examples)

lemma utcfromtimestamp_1700000000:
  "utcfromtimestamp_int env 1700000000 =
     Inr \<lparr>year = 2023, month = 11, day = 14, hour = 22, minute = 13, second = 20,
          microsecond = 0\<rparr>"
  by (simp add: utcfromtimestamp_int_def ord2ymd_def yday2md_def Let_def DAYS_BEFORE_MONTH_def
      DAYS_IN_MONTH_def)

lemma Decimal_str_examples:
  "Decimal_str ''1.5'' = Inr (Dec False 15 (- 1))"
  "Decimal_str ''30000.25'' = Inr (Dec False 3000025 (- 2))"
  "Decimal_str ''0.1'' = Inr (Dec False 1 (- 1))"
  "Decimal_str ''abc'' = Inl (Exc InvalidOperation [])"
  by (simp_all add: Decimal_str_def strip_def py_isspace_def is_digit_def int_of_digits_def
      digit_val_def Decimal_special_def py_lower_def)

lemma envelope_payload_examples:
  "envelope_payload example_env trade_envelope = Inr trade_payload"
  "envelope_payload example_env bad_amount_envelope = Inr bad_amount_payload"
  "envelope_payload example_env order_book_envelope = Inr order_book_payload"
  "envelope_payload example_env ticker_envelope = Inr ticker_payload"
  "envelope_payload example_env control_envelope = Inl (Exc UnsupportedMessageType [])"
  by (simp_all add: envelope_payload_def trade_envelope_def bad_amount_envelope_def
      order_book_envelope_def ticker_envelope_def control_envelope_def example_env_def)

lemma dispatch_trade_payload:
  "dispatch example_env ob True trade_payload =
     Inr [TradesCall \<lparr>year = 2023, month = 11, day = 14, hour = 22, minute = 13, second = 20,
                      microsecond = 0\<rparr>
            (JInt 42) (JStr ''BTC_USD'') (Dec False 15 (- 1)) (Dec False 3000025 (- 2))]"
  by (simp add: dispatch_def trade_payload_def utcfromtimestamp_1700000000 Decimal_str_examples)

lemma dispatch_examples:
  "dispatch example_env ob True bad_amount_payload = Inl (Exc InvalidOperation [])"
  "dispatch example_env True tr order_book_payload =
     Inr [OrderBookCall (JInt 7) (JStr ''BTC_USD'') Class_dict
            (Value (JObject [(''30000.5'', JStr ''2'')]))]"
  "dispatch example_env ob tr ticker_payload = Inl (Exc UnsupportedMessageType [])"
  by (simp_all add: dispatch_def bad_amount_payload_def order_book_payload_def ticker_payload_def
      utcfromtimestamp_1700000000 Decimal_str_examples)

text \<open>One trade received and handled, the market-data callback counting: the loop is
  waiting for the next message.\<close>

lemma run_one_trade:
  "run example_env [text_frame trade_text] (Some counting_callback) True True (0::nat) =
     (1, [MarketDataCall trade_payload,
          TradesCall \<lparr>year = 2023, month = 11, day = 14, hour = 22, minute = 13, second = 20,
                      microsecond = 0\<rparr>
            (JInt 42) (JStr ''BTC_USD'') (Dec False 15 (- 1)) (Dec False 3000025 (- 2))],
      Receiving)"
  by (simp add: run_def receive_msg_examples reader_loop_try_def envelope_payload_examples
      counting_callback_def dispatch_trade_payload)

subsection \<open>Close frames\<close>

text \<open>
  C3. A frame whose kind is one of \<open>CLOSE_MESSAGES\<close> ends the loop with \<open>ConnectionClosed\<close>
  carrying the frame's close code (\<open>data\<close>) and reason (\<open>extra\<close>); the exception is not a
  decode error, and the state and the calls are those made before the frame. Whatever
  follows the frame is not read.
\<close>

theorem close_frame_raises_ConnectionClosed:
  assumes "msg_type m \<in> set (CLOSE_MESSAGES env)"
    and "run env ws md ob tr s = (s', cs, Receiving)"
  shows "run env (ws @ m # ws') md ob tr s =
           (s', cs, Raised (Exc ConnectionClosed [Atom (msg_data m), Atom (msg_extra m)]))
         \<and> \<not> isinstance (Exc ConnectionClosed [Atom (msg_data m), Atom (msg_extra m)])
               [JSONDecodeError, CryptologyError, UnsupportedMessageType]"
proof -
  have "receive_msg env m = Inl (Exc ConnectionClosed [Atom (msg_data m), Atom (msg_extra m)])"
    using assms(1) by (simp add: receive_msg_def handle_close_message_def)
  then show ?thesis
    using assms(2) by (simp add: run_def reader_loop_receive_raises isinstance_def issubclass_def)
qed

theorem close_frame_raises_ConnectionClosed_witness:
  "run example_env ([text_frame trade_text] @ close_frame # [text_frame trade_text])
     (Some counting_callback) True True (0::nat) =
     (1, [MarketDataCall trade_payload,
          TradesCall \<lparr>year = 2023, month = 11, day = 14, hour = 22, minute = 13, second = 20,
                      microsecond = 0\<rparr>
            (JInt 42) (JStr ''BTC_USD'') (Dec False 15 (- 1)) (Dec False 3000025 (- 2))],
      Raised (Exc ConnectionClosed [Atom (PInt 1000), Atom (PStr ''bye'')]))"
proof -
  have 1: "msg_type close_frame \<in> set (CLOSE_MESSAGES example_env)"
    by (simp add: close_frame_def example_env_def)
  show ?thesis
    using close_frame_raises_ConnectionClosed [OF 1 run_one_trade, of "[text_frame trade_text]"]
    by (simp add: close_frame_def)
qed

subsection \<open>Payloads that are not JSON\<close>

lemma loads_not_valid_JSON:
  "not_valid_JSON env d \<Longrightarrow>
   loads env d =
     Inl (Exc (if \<exists>b. d = PBytes b \<and> bytes_decode env b = None
               then UnicodeDecodeError else JSONDecodeError) [])"
  by (cases d) (auto split: option.splits)

text \<open>
  C4. A text or binary frame whose payload is not valid JSON ends the loop with the
  \<open>ValueError\<close> that \<open>json.loads\<close> raises, the failure the spec calls \<open>MalformedMessage\<close>:
  \<open>json.JSONDecodeError\<close> for a text, or for bytes that decode to a text, that is not
  JSON, and \<open>UnicodeDecodeError\<close> for bytes that do not decode. \<open>receive_msg\<close> is called
  outside the \<open>try\<close> statement, so the caller of \<open>run\<close> gets this exception itself, not
  the generic decode failure; the state and the calls are those made before the frame, and
  no later frame is read.
\<close>

theorem malformed_json_is_fatal:
  assumes "msg_type m \<in> {TEXT, BINARY}"
    and "msg_type m \<notin> set (CLOSE_MESSAGES env)"
    and "not_valid_JSON env (msg_data m)"
    and "run env ws md ob tr s = (s', cs, Receiving)"
  shows "run env (ws @ m # ws') md ob tr s =
           (s', cs,
            Raised (Exc (if \<exists>b. msg_data m = PBytes b \<and> bytes_decode env b = None
                         then UnicodeDecodeError else JSONDecodeError) []))
         \<and> issubclass JSONDecodeError ValueError \<and> issubclass UnicodeDecodeError ValueError
         \<and> \<not> issubclass JSONDecodeError CryptologyError
         \<and> \<not> issubclass UnicodeDecodeError CryptologyError"
proof -
  have "receive_msg env m =
          Inl (Exc (if \<exists>b. msg_data m = PBytes b \<and> bytes_decode env b = None
                    then UnicodeDecodeError else JSONDecodeError) [])"
    using assms(2) loads_not_valid_JSON [OF assms(3)] by (simp add: receive_msg_def)
  then have "run env (ws @ m # ws') md ob tr s =
           (s', cs,
            Raised (Exc (if \<exists>b. msg_data m = PBytes b \<and> bytes_decode env b = None
                         then UnicodeDecodeError else JSONDecodeError) []))"
    using assms(4) by (simp add: run_def reader_loop_receive_raises)
  then show ?thesis by (simp add: issubclass_def)
qed

theorem malformed_json_is_fatal_witness:
  "run example_env ([text_frame trade_text] @ text_frame malformed_text # [text_frame trade_text])
     (Some counting_callback) True True (0::nat) =
     (1, [MarketDataCall trade_payload,
          TradesCall \<lparr>year = 2023, month = 11, day = 14, hour = 22, minute = 13, second = 20,
                      microsecond = 0\<rparr>
            (JInt 42) (JStr ''BTC_USD'') (Dec False 15 (- 1)) (Dec False 3000025 (- 2))],
      Raised (Exc JSONDecodeError []))
   \<and> run example_env ([text_frame trade_text] @ binary_frame [CHR 0xFF] # [text_frame trade_text])
     (Some counting_callback) True True (0::nat) =
     (1, [MarketDataCall trade_payload,
          TradesCall \<lparr>year = 2023, month = 11, day = 14, hour = 22, minute = 13, second = 20,
                      microsecond = 0\<rparr>
            (JInt 42) (JStr ''BTC_USD'') (Dec False 15 (- 1)) (Dec False 3000025 (- 2))],
      Raised (Exc UnicodeDecodeError []))
   \<and> run example_env ([text_frame trade_text] @ binary_frame malformed_text # [text_frame trade_text])
     (Some counting_callback) True True (0::nat) =
     (1, [MarketDataCall trade_payload,
          TradesCall \<lparr>year = 2023, month = 11, day = 14, hour = 22, minute = 13, second = 20,
                      microsecond = 0\<rparr>
            (JInt 42) (JStr ''BTC_USD'') (Dec False 15 (- 1)) (Dec False 3000025 (- 2))],
      Raised (Exc JSONDecodeError []))"
proof -
  have t: "msg_type (text_frame malformed_text) \<in> {TEXT, BINARY}"
    "msg_type (text_frame malformed_text) \<notin> set (CLOSE_MESSAGES example_env)"
    "not_valid_JSON example_env (msg_data (text_frame malformed_text))"
    by (simp_all add: text_frame_def loads_examples) (simp add: example_env_def)
  have d: "bytes_decode example_env [CHR 0xFF] = None"
    "bytes_decode example_env malformed_text = Some malformed_text"
    by (simp_all add: example_env_def malformed_text_def)
  have b: "msg_type (binary_frame x) \<in> {TEXT, BINARY}"
    "msg_type (binary_frame x) \<notin> set (CLOSE_MESSAGES example_env)" for x
    by (simp_all add: binary_frame_def example_env_def)
  have n: "not_valid_JSON example_env (msg_data (binary_frame [CHR 0xFF]))"
    "not_valid_JSON example_env (msg_data (binary_frame malformed_text))"
    by (simp_all add: binary_frame_def d loads_examples)
  show ?thesis
    using malformed_json_is_fatal [OF t run_one_trade, of "[text_frame trade_text]"]
      malformed_json_is_fatal [OF b n(1) run_one_trade, of "[text_frame trade_text]"]
      malformed_json_is_fatal [OF b n(2) run_one_trade, of "[text_frame trade_text]"]
    by (simp add: text_frame_def binary_frame_def d)
qed

lemma run_one_trade_raising:
  "run example_env [text_frame trade_text] (Some (raising_callback e)) True True (0::nat) =
     (1, [MarketDataCall trade_payload,
          TradesCall \<lparr>year = 2023, month = 11, day = 14, hour = 22, minute = 13, second = 20,
                      microsecond = 0\<rparr>
            (JInt 42) (JStr ''BTC_USD'') (Dec False 15 (- 1)) (Dec False 3000025 (- 2))],
      Receiving)"
  by (simp add: run_def receive_msg_examples reader_loop_try_def envelope_payload_examples
      raising_callback_def dispatch_trade_payload)

lemma getitem_examples:
  "getitem trade_envelope ''response_type'' = Inr (JStr ''BROADCAST'')"
  "getitem trade_envelope ''data'' = Inr trade_payload"
  "getitem ticker_envelope ''response_type'' = Inr (JStr ''BROADCAST'')"
  "getitem ticker_envelope ''data'' = Inr ticker_payload"
  "getitem ticker_payload ''@type'' = Inr (JStr ''Ticker'')"
  "getitem control_envelope ''response_type'' = Inr (JStr ''MESSAGE'')"
  by (simp_all add: trade_envelope_def ticker_envelope_def ticker_payload_def
      control_envelope_def)

subsection \<open>Envelopes that are not dispatched\<close>

lemma envelope_payload_broadcast:
  assumes "getitem msg ''response_type'' = Inr (JStr ''BROADCAST'')"
    and "getitem msg ''data'' = Inr payload"
  shows "envelope_payload env msg = Inr payload"
  using assms by (simp add: envelope_payload_def)

lemma dispatch_no_MarketDataCall:
  "dispatch env ob tr payload = Inr cs \<Longrightarrow> filter is_MarketDataCall cs = []"
  by (auto simp: dispatch_def and_then_def split: sum.splits if_splits)

text \<open>
  C6. A decoded envelope whose \<open>response_type\<close> is a string other than \<open>BROADCAST\<close> ends the
  loop with the generic decode failure: inside the \<open>try\<close> the lookup raises
  \<open>UnsupportedMessageType\<close> for a member of the enumeration and \<open>KeyError\<close> for a name
  outside it, and the \<open>except\<close> clause turns both into \<open>CryptologyError('failed to decode
  data')\<close>. No callback is called for the envelope: the calls and the state are those made
  before it.
\<close>

theorem other_category_is_rejected:
  assumes "receive_msg env m = Inr msg"
    and "getitem msg ''response_type'' = Inr (JStr rt)"
    and "rt \<noteq> ''BROADCAST''"
    and "run env ws md ob tr s = (s', cs, Receiving)"
  shows "run env (ws @ m # ws') md ob tr s = (s', cs, Raised failed_to_decode_data)
         \<and> reader_loop_try env md ob tr msg s' =
             (s', [], Some (Exc (if rt \<in> set (ServerMessageType env)
                                 then UnsupportedMessageType else KeyError) []))"
proof -
  have t: "reader_loop_try env md ob tr msg s' =
             (s', [], Some (Exc (if rt \<in> set (ServerMessageType env)
                                 then UnsupportedMessageType else KeyError) []))"
    using assms(2,3) by (simp add: reader_loop_try_def envelope_payload_def)
  have "reader_loop_except (Exc (if rt \<in> set (ServerMessageType env)
                                 then UnsupportedMessageType else KeyError) []) =
          failed_to_decode_data"
    by (simp add: reader_loop_except_def isinstance_def issubclass_def)
  with reader_loop_try_raises [OF assms(4) [unfolded run_def] assms(1) t, of ws'] t
  show ?thesis by (simp add: run_def)
qed

theorem other_category_is_rejected_witness:
  "run example_env ([text_frame trade_text] @ text_frame control_text # [text_frame trade_text])
     (Some counting_callback) True True (0::nat) =
     (1, [MarketDataCall trade_payload,
          TradesCall \<lparr>year = 2023, month = 11, day = 14, hour = 22, minute = 13, second = 20,
                      microsecond = 0\<rparr>
            (JInt 42) (JStr ''BTC_USD'') (Dec False 15 (- 1)) (Dec False 3000025 (- 2))],
      Raised failed_to_decode_data)
   \<and> reader_loop_try example_env (Some counting_callback) True True control_envelope (1::nat) =
       (1, [], Some (Exc UnsupportedMessageType []))"
proof -
  have 3: "''MESSAGE'' \<noteq> ''BROADCAST''" by simp
  show ?thesis
    using other_category_is_rejected [OF receive_msg_examples(5) getitem_examples(6) 3
        run_one_trade, of "[text_frame trade_text]"]
    by (simp add: example_env_def)
qed

text \<open>
  C7. A broadcast whose \<open>data['@type']\<close> is neither \<open>'OrderBookAgg'\<close> nor
  \<open>'AnonymousTrade'\<close> raises \<open>UnsupportedMessageType\<close> in the dispatch, and the loop ends
  with the generic decode failure that wraps it. Neither the order-book nor the trades
  callback is called: the only call made for the envelope is the market-data call that
  precedes the dispatch, when that callback is registered (and if that callback raises,
  the loop ends there, with what the \<open>except\<close> clause makes of its exception).
\<close>

theorem unknown_payload_type_is_rejected:
  assumes "receive_msg env m = Inr msg"
    and "getitem msg ''response_type'' = Inr (JStr ''BROADCAST'')"
    and "getitem msg ''data'' = Inr payload"
    and "getitem payload ''@type'' = Inr t"
    and "t \<noteq> JStr ''OrderBookAgg''"
    and "t \<noteq> JStr ''AnonymousTrade''"
    and "run env ws md ob tr s = (s', cs, Receiving)"
  shows "dispatch env ob tr payload = Inl (Exc UnsupportedMessageType [])
         \<and> run env (ws @ m # ws') md ob tr s =
           (case md of
              None \<Rightarrow> (s', cs, Raised failed_to_decode_data)
            | Some cb \<Rightarrow>
                (case cb payload s' of
                   (None, s'') \<Rightarrow>
                     (s'', cs @ [MarketDataCall payload], Raised failed_to_decode_data)
                 | (Some e, s'') \<Rightarrow>
                     (s'', cs @ [MarketDataCall payload], Raised (reader_loop_except e))))"
proof -
  have d: "dispatch env ob tr payload = Inl (Exc UnsupportedMessageType [])"
    using assms(4,5,6) by (simp add: dispatch_def)
  have p: "envelope_payload env msg = Inr payload"
    using assms(2,3) by (rule envelope_payload_broadcast)
  have x: "reader_loop_except (Exc UnsupportedMessageType []) = failed_to_decode_data"
    by (simp add: reader_loop_except_def isinstance_def issubclass_def)
  have "reader_loop env md ob tr (ws @ m # ws') s =
           (case md of
              None \<Rightarrow> (s', cs, Raised failed_to_decode_data)
            | Some cb \<Rightarrow>
                (case cb payload s' of
                   (None, s'') \<Rightarrow>
                     (s'', cs @ [MarketDataCall payload], Raised failed_to_decode_data)
                 | (Some e, s'') \<Rightarrow>
                     (s'', cs @ [MarketDataCall payload], Raised (reader_loop_except e))))"
    using assms(1) assms(7) [unfolded run_def] d p x
    by (simp add: reader_loop_append reader_loop_try_def split: option.splits prod.splits)
  with d show ?thesis by (simp add: run_def)
qed

theorem unknown_payload_type_is_rejected_witness:
  "dispatch example_env True True ticker_payload = Inl (Exc UnsupportedMessageType [])
   \<and> run example_env ([text_frame trade_text] @ text_frame ticker_text # [text_frame trade_text])
     (Some counting_callback) True True (0::nat) =
     (2, [MarketDataCall trade_payload,
          TradesCall \<lparr>year = 2023, month = 11, day = 14, hour = 22, minute = 13, second = 20,
                      microsecond = 0\<rparr>
            (JInt 42) (JStr ''BTC_USD'') (Dec False 15 (- 1)) (Dec False 3000025 (- 2)),
          MarketDataCall ticker_payload],
      Raised failed_to_decode_data)"
proof -
  have 5: "JStr ''Ticker'' \<noteq> (JStr ''OrderBookAgg'' :: unit json)" by simp
  have 6: "JStr ''Ticker'' \<noteq> (JStr ''AnonymousTrade'' :: unit json)" by simp
  show ?thesis
    using unknown_payload_type_is_rejected [OF receive_msg_examples(4) getitem_examples(3)
        getitem_examples(4) getitem_examples(5) 5 6 run_one_trade,
        of "[text_frame trade_text]"]
    by (simp add: counting_callback_def)
qed

subsection \<open>The market-data callback\<close>

text \<open>
  C8. For a broadcast envelope with a payload (of any kind: the \<open>@type\<close> is not looked at
  yet), a registered market-data callback is called with the payload first, and the rest
  is what the loop does for the envelope without that callback, started from the state the
  callback left: so the callback is called once, whatever the dispatch then does. Without
  the callback the state is unchanged, nothing is raised but what the dispatch raises, and
  no market-data call is made.
\<close>

theorem market_data_callback_fires_first:
  assumes "getitem msg ''response_type'' = Inr (JStr ''BROADCAST'')"
    and "getitem msg ''data'' = Inr payload"
  shows "reader_loop_try env (Some cb) ob tr msg s =
           (case cb payload s of
              (Some e, s') \<Rightarrow> (s', [MarketDataCall payload], Some e)
            | (None, s') \<Rightarrow>
                (case reader_loop_try env None ob tr msg s' of
                   (s'', cs, r) \<Rightarrow> (s', MarketDataCall payload # cs, r)))
         \<and> reader_loop_try env None ob tr msg s =
             (case dispatch env ob tr payload of
                Inl e \<Rightarrow> (s, [], Some e)
              | Inr cs \<Rightarrow> (s, cs, None))
         \<and> filter is_MarketDataCall (fst (snd (reader_loop_try env None ob tr msg s))) = []"
proof -
  have p: "envelope_payload env msg = Inr payload"
    using assms by (rule envelope_payload_broadcast)
  have 1: "reader_loop_try env (Some cb) ob tr msg s =
           (case cb payload s of
              (Some e, s') \<Rightarrow> (s', [MarketDataCall payload], Some e)
            | (None, s') \<Rightarrow>
                (case reader_loop_try env None ob tr msg s' of
                   (s'', cs, r) \<Rightarrow> (s', MarketDataCall payload # cs, r)))"
    using p by (simp add: reader_loop_try_def split: prod.splits option.splits sum.splits)
  have 2: "reader_loop_try env None ob tr msg s =
             (case dispatch env ob tr payload of
                Inl e \<Rightarrow> (s, [], Some e)
              | Inr cs \<Rightarrow> (s, cs, None))"
    using p by (simp add: reader_loop_try_def)
  have 3: "filter is_MarketDataCall (fst (snd (reader_loop_try env None ob tr msg s))) = []"
    unfolding 2 by (simp add: dispatch_no_MarketDataCall split: sum.splits)
  from 1 2 3 show ?thesis by blast
qed

theorem market_data_callback_fires_first_witness:
  "reader_loop_try example_env (Some counting_callback) False False ticker_envelope (0::nat) =
     (1, [MarketDataCall ticker_payload], Some (Exc UnsupportedMessageType []))
   \<and> reader_loop_try example_env None False False ticker_envelope (0::nat) =
     (0, [], Some (Exc UnsupportedMessageType []))"
  using market_data_callback_fires_first [OF getitem_examples(3) getitem_examples(4),
      of example_env counting_callback False False "0::nat"]
    market_data_callback_fires_first [OF getitem_examples(3) getitem_examples(4),
      of example_env counting_callback False False "1::nat"]
  by (simp add: counting_callback_def dispatch_examples)

subsection \<open>Exceptions raised by the market-data callback\<close>

text \<open>
  C10, as the code has it. The callback is awaited inside the \<open>try\<close> statement, whose
  \<open>except\<close> clause names three classes. When the market-data callback raises an exception
  that is an instance of \<open>KeyError\<close>, of \<open>ValueError\<close> or of
  \<open>exceptions.UnsupportedMessageType\<close> (of one of these classes or of a class derived from
  one), the loop ends with the generic decode failure in its place; any other exception
  reaches the caller of \<open>run\<close> unchanged. Either way the market-data call is the only call
  made for the envelope.
\<close>

theorem callback_exception_handling:
  assumes "receive_msg env m = Inr msg"
    and "getitem msg ''response_type'' = Inr (JStr ''BROADCAST'')"
    and "getitem msg ''data'' = Inr payload"
    and "cb payload s' = (Some e, s'')"
    and "run env ws (Some cb) ob tr s = (s', cs, Receiving)"
  shows "run env (ws @ m # ws') (Some cb) ob tr s =
           (s'', cs @ [MarketDataCall payload],
            Raised (if issubclass (exc_class e) KeyError \<or> issubclass (exc_class e) ValueError
                       \<or> issubclass (exc_class e) UnsupportedMessageType
                    then failed_to_decode_data else e))"
proof -
  have p: "envelope_payload env msg = Inr payload"
    using assms(2,3) by (rule envelope_payload_broadcast)
  have t: "reader_loop_try env (Some cb) ob tr msg s' = (s'', [MarketDataCall payload], Some e)"
    using p assms(4) by (simp add: reader_loop_try_def)
  show ?thesis
    using reader_loop_try_raises [OF assms(5) [unfolded run_def] assms(1) t, of ws']
    by (simp add: run_def reader_loop_except_def isinstance_def)
qed

theorem callback_exception_handling_witness:
  "run example_env ([text_frame trade_text] @ text_frame trade_text # [text_frame ticker_text])
     (Some (raising_callback (Exc (UserClass ''BadTick'' KeyError) [Atom (PStr ''x'')])))
     True True (0::nat) =
     (2, [MarketDataCall trade_payload,
          TradesCall \<lparr>year = 2023, month = 11, day = 14, hour = 22, minute = 13, second = 20,
                      microsecond = 0\<rparr>
            (JInt 42) (JStr ''BTC_USD'') (Dec False 15 (- 1)) (Dec False 3000025 (- 2)),
          MarketDataCall trade_payload],
      Raised failed_to_decode_data)
   \<and> run example_env ([text_frame trade_text] @ text_frame trade_text # [text_frame ticker_text])
     (Some (raising_callback (Exc TypeError [Atom (PStr ''x'')])))
     True True (0::nat) =
     (2, [MarketDataCall trade_payload,
          TradesCall \<lparr>year = 2023, month = 11, day = 14, hour = 22, minute = 13, second = 20,
                      microsecond = 0\<rparr>
            (JInt 42) (JStr ''BTC_USD'') (Dec False 15 (- 1)) (Dec False 3000025 (- 2)),
          MarketDataCall trade_payload],
      Raised (Exc TypeError [Atom (PStr ''x'')]))"
proof -
  have 4: "raising_callback e trade_payload (1::nat) = (Some e, 2)" for e
    by (simp add: raising_callback_def)
  show ?thesis
    using callback_exception_handling [where ws' = "[text_frame ticker_text]",
        OF receive_msg_examples(1) getitem_examples(1) getitem_examples(2)
        4 [of "Exc (UserClass ''BadTick'' KeyError) [Atom (PStr ''x'')]"] run_one_trade_raising]
      callback_exception_handling [where ws' = "[text_frame ticker_text]",
        OF receive_msg_examples(1) getitem_examples(1) getitem_examples(2)
        4 [of "Exc TypeError [Atom (PStr ''x'')]"] run_one_trade_raising]
    by (simp add: issubclass_def)
qed

text \<open>
  C10 as the claim words it fails: a market-data callback that raises
  \<open>exceptions.UnsupportedMessageType\<close>, which is neither a \<open>KeyError\<close> nor a \<open>ValueError\<close>,
  does not get its exception through; the loop raises the generic decode failure.
\<close>

theorem callback_UnsupportedMessageType_is_wrapped:
  "run example_env [text_frame trade_text, text_frame trade_text]
     (Some (raising_callback (Exc UnsupportedMessageType []))) True True (0::nat) =
     (2, [MarketDataCall trade_payload,
          TradesCall \<lparr>year = 2023, month = 11, day = 14, hour = 22, minute = 13, second = 20,
                      microsecond = 0\<rparr>
            (JInt 42) (JStr ''BTC_USD'') (Dec False 15 (- 1)) (Dec False 3000025 (- 2)),
          MarketDataCall trade_payload],
      Raised failed_to_decode_data)
   \<and> \<not> issubclass UnsupportedMessageType KeyError
   \<and> \<not> issubclass UnsupportedMessageType ValueError
   \<and> failed_to_decode_data \<noteq> Exc UnsupportedMessageType []"
  by (simp add: run_def receive_msg_examples reader_loop_try_def envelope_payload_examples
      raising_callback_def dispatch_trade_payload reader_loop_except_def isinstance_def
      issubclass_def failed_to_decode_data_def)

subsection \<open>Order-book updates\<close>

text \<open>The call scheduled for an order-book update: the two required fields as they are in
  the payload, and for each of the two optional fields its value or the default of
  \<open>payload.get\<close>, which is the class \<open>dict\<close>.\<close>

lemma order_book_call_arguments:
  assumes "map_of kvs ''@type'' = Some (JStr ''OrderBookAgg'')"
    and "map_of kvs ''current_order_id'' = Some current_order_id"
    and "map_of kvs ''trade_pair'' = Some trade_pair"
  shows "dispatch env True tr (JObject kvs) =
           Inr [OrderBookCall current_order_id trade_pair
                  (case map_of kvs ''buy_levels'' of None \<Rightarrow> Class_dict | Some v \<Rightarrow> Value v)
                  (case map_of kvs ''sell_levels'' of None \<Rightarrow> Class_dict | Some v \<Rightarrow> Value v)]"
  using assms by (simp add: dispatch_def split: option.splits)

text \<open>
  C1, at an order-book update without \<open>buy_levels\<close>. The order-book callback is called
  once, with the order id 7 and the trade pair \<open>BTC_USD\<close> of the payload and with its
  \<open>sell_levels\<close>; in the place of the absent \<open>buy_levels\<close> it gets the class \<open>dict\<close>, not an
  empty map.
\<close>

theorem absent_levels_are_the_dict_class:
  "run example_env [text_frame order_book_text] None True False (0::nat) =
     (0, [OrderBookCall (JInt 7) (JStr ''BTC_USD'') Class_dict
            (Value (JObject [(''30000.5'', JStr ''2'')]))],
      Receiving)
   \<and> (Class_dict :: unit pyobj) \<noteq> Value (JObject [])"
  by (simp add: run_def receive_msg_examples reader_loop_try_def envelope_payload_examples
      dispatch_examples)

subsection \<open>Failures of the extraction\<close>

text \<open>What the \<open>except\<close> clause wraps: an exception of one of its three classes.\<close>

lemma decode_errors_are_wrapped:
  "issubclass c KeyError \<or> issubclass c ValueError \<or> issubclass c UnsupportedMessageType \<Longrightarrow>
   reader_loop_except (Exc c args) = failed_to_decode_data"
  by (auto simp: reader_loop_except_def isinstance_def)

text \<open>
  C5, at a trade whose \<open>amount\<close> is \<open>"abc"\<close>, the trades callback registered.
  \<open>Decimal("abc")\<close> raises \<open>decimal.InvalidOperation\<close>, an \<open>ArithmeticError\<close>; the \<open>except\<close>
  clause does not name it, so the loop ends with \<open>InvalidOperation\<close> itself and not with
  the generic decode failure.
\<close>

theorem malformed_decimal_is_not_wrapped:
  "run example_env [text_frame bad_amount_text] None False True (0::nat) =
     (0, [], Raised (Exc InvalidOperation []))
   \<and> Exc InvalidOperation [] \<noteq> failed_to_decode_data
   \<and> \<not> isinstance (Exc InvalidOperation []) [KeyError, ValueError, UnsupportedMessageType]"
  by (simp add: run_def receive_msg_examples reader_loop_try_def envelope_payload_examples
      dispatch_examples reader_loop_except_def isinstance_def issubclass_def
      failed_to_decode_data_def)

subsection \<open>The calendar\<close>

lemma month_guess: "((k::int) + 50) div 32 = j \<longleftrightarrow> 32 * j - 50 \<le> k \<and> k \<le> 32 * j - 19"
  by linarith

lemma yday2md_correct:
  assumes "0 \<le> k" "k \<le> 364" "is_leap y = L"
  shows "case yday2md L k of (m, d) \<Rightarrow>
           1 \<le> m \<and> m \<le> 12 \<and> 1 \<le> d \<and> d \<le> days_in_month y m \<and> days_before_month y m + d = k + 1"
proof -
  define m where "m = (k + 50) div 32"
  have "1 \<le> m" "m \<le> 12"
    using assms(1,2) unfolding m_def by presburger+
  then have "m \<in> {1, 2, 3, 4, 5, 6, 7, 8, 9, 10, 11, 12}"
    by simp presburger
  then show ?thesis
    using assms m_def [symmetric]
    apply (simp only: yday2md_def Let_def)
    apply (elim insertE emptyE)
    apply (simp_all add: DAYS_BEFORE_MONTH_def DAYS_IN_MONTH_def days_in_month_def
        days_before_month_def month_guess)
    done
qed


lemma days_before_year_cycles:
  assumes "0 \<le> b" "b \<le> 3" "0 \<le> c" "c \<le> 24" "0 \<le> d" "d \<le> 3"
  shows "days_before_year (400 * a + 100 * b + 4 * c + d + 1) =
           146097 * a + 36524 * b + 1461 * c + 365 * d"
proof -
  define x where "x = 400 * a + 100 * b + 4 * c + d"
  have 4: "x div 4 = 100 * a + 25 * b + c"
    by (rule int_div_pos_eq [where r = d]) (use assms in \<open>simp_all add: x_def\<close>)
  have 100: "x div 100 = 4 * a + b"
    by (rule int_div_pos_eq [where r = "4 * c + d"]) (use assms in \<open>simp_all add: x_def\<close>)
  have 400: "x div 400 = a"
    by (rule int_div_pos_eq [where r = "100 * b + 4 * c + d"])
      (use assms in \<open>simp_all add: x_def\<close>)
  have "days_before_year (x + 1) = 146097 * a + 36524 * b + 1461 * c + 365 * d"
    unfolding days_before_year_def by (simp add: 4 100 400) (simp add: x_def)
  then show ?thesis by (simp add: x_def)
qed

lemma is_leap_cycles:
  assumes "0 \<le> b" "b \<le> 3" "0 \<le> c" "c \<le> 24" "0 \<le> d" "d \<le> 3"
  shows "is_leap (400 * a + 100 * b + 4 * c + d + 1) = (d = 3 \<and> (c \<noteq> 24 \<or> b = 3))"
proof -
  define y where "y = 400 * a + 100 * b + 4 * c + d + 1"
  have "is_leap y = (d = 3 \<and> (c \<noteq> 24 \<or> b = 3))"
  proof (cases "d = 3")
    case False
    have "y mod 4 = d + 1"
      by (rule int_mod_pos_eq [where q = "100 * a + 25 * b + c"])
        (use assms False in \<open>simp_all add: y_def\<close>)
    with assms False show ?thesis by (simp add: is_leap_def)
  next
    case True
    have m4: "y mod 4 = 0"
      by (rule int_mod_pos_eq [where q = "100 * a + 25 * b + c + 1"])
        (use True in \<open>simp_all add: y_def\<close>)
    show ?thesis
    proof (cases "c = 24")
      case False
      have "y mod 100 = 4 * c + 4"
        by (rule int_mod_pos_eq [where q = "4 * a + b"])
          (use assms True False in \<open>simp_all add: y_def\<close>)
      with assms True False m4 show ?thesis by (simp add: is_leap_def)
    next
      case c: True
      have m100: "y mod 100 = 0"
        by (rule int_mod_pos_eq [where q = "4 * a + b + 1"])
          (use True c in \<open>simp_all add: y_def\<close>)
      show ?thesis
      proof (cases "b = 3")
        case True
        have "y mod 400 = 0"
          by (rule int_mod_pos_eq [where q = "a + 1"])
            (use True c \<open>d = 3\<close> in \<open>simp_all add: y_def\<close>)
        with True c \<open>d = 3\<close> m4 show ?thesis by (simp add: is_leap_def)
      next
        case False
        have "y mod 400 = 100 * b + 100"
          by (rule int_mod_pos_eq [where q = a])
            (use assms False c \<open>d = 3\<close> in \<open>simp_all add: y_def\<close>)
        with assms False c \<open>d = 3\<close> m4 m100 show ?thesis
          by (simp add: is_leap_def)
      qed
    qed
  qed
  then show ?thesis by (simp add: y_def)
qed


lemma days_before_year_10000:
  assumes "10000 \<le> y"
  shows "3652059 \<le> days_before_year y"
proof -
  define x where "x = y - 1"
  have "x mod 4 < 4" "0 \<le> x mod 100" "x mod 400 < 400"
    by simp_all
  moreover have "x = 4 * (x div 4) + x mod 4" "x = 100 * (x div 100) + x mod 100"
    "x = 400 * (x div 400) + x mod 400"
    by simp_all
  ultimately have 1: "x - 3 \<le> 4 * (x div 4)" and 2: "100 * (x div 100) \<le> x"
    and 3: "x - 399 \<le> 400 * (x div 400)"
    by linarith+
  have "9999 \<le> x" using assms by (simp add: x_def)
  with 1 2 3 have "3652059 \<le> x * 365 + x div 4 - x div 100 + x div 400"
    by linarith
  then show ?thesis by (simp add: days_before_year_def x_def)
qed

lemma ord2ymd_correct:
  assumes "1 \<le> n"
  shows "case ord2ymd n of (y, m, d) \<Rightarrow>
           1 \<le> y \<and> days_before_year y < n \<and> 1 \<le> m \<and> m \<le> 12 \<and> 1 \<le> d
           \<and> d \<le> days_in_month y m \<and> ymd2ord y m d = n"
proof -
  define n' where "n' = n - 1"
  define a where "a = n' div 146097"
  define r1 where "r1 = n' mod 146097"
  define b where "b = r1 div 36524"
  define r2 where "r2 = r1 mod 36524"
  define c where "c = r2 div 1461"
  define r3 where "r3 = r2 mod 1461"
  define d where "d = r3 div 365"
  define r4 where "r4 = r3 mod 365"
  define y where "y = a * 400 + 1 + b * 100 + c * 4 + d"
  note defs = n'_def a_def r1_def b_def r2_def c_def r3_def d_def r4_def y_def
  have eq: "ord2ymd n =
      (if d = 4 \<or> b = 4 then (y - 1, 12, 31)
       else (case yday2md (d = 3 \<and> (c \<noteq> 24 \<or> b = 3)) r4 of (m, dd) \<Rightarrow> (y, m, dd)))"
    by (simp add: ord2ymd_def Let_def defs)
  have n': "0 \<le> n'" "n = n' + 1" using assms by (simp_all add: n'_def)
  have a: "0 \<le> a" "n' = 146097 * a + r1" "0 \<le> r1" "r1 < 146097"
    using n' by (simp_all add: a_def r1_def pos_imp_zdiv_nonneg_iff)
  have b: "0 \<le> b" "r1 = 36524 * b + r2" "0 \<le> r2" "r2 < 36524"
    using a by (simp_all add: b_def r2_def pos_imp_zdiv_nonneg_iff)
  have c: "0 \<le> c" "r2 = 1461 * c + r3" "0 \<le> r3" "r3 < 1461"
    using b by (simp_all add: c_def r3_def pos_imp_zdiv_nonneg_iff)
  have d: "0 \<le> d" "r3 = 365 * d + r4" "0 \<le> r4" "r4 < 365"
    using c by (simp_all add: d_def r4_def pos_imp_zdiv_nonneg_iff)
  have b4: "b \<le> 4" using a b by linarith
  have c24: "c \<le> 24" using b c by linarith
  have d4: "d \<le> 4" using c d by linarith
  consider (last_of_400) "b = 4" | (last_of_4) "b \<le> 3" "d = 4" | (general) "b \<le> 3" "d \<le> 3"
    using b4 d4 by linarith
  then show ?thesis
  proof cases
    case last_of_400
    have z: "r2 = 0" "c = 0" "r3 = 0" "d = 0" "r4 = 0"
      using last_of_400 a b c d by linarith+
    have yy: "y - 1 = 400 * a + 100 * 3 + 4 * 24 + 3 + 1"
      using last_of_400 z by (simp add: y_def)
    have 1: "days_before_year (y - 1) = 146097 * a + 36524 * 3 + 1461 * 24 + 365 * 3"
      unfolding yy by (rule days_before_year_cycles) simp_all
    have 2: "is_leap (y - 1)"
      unfolding yy by (subst is_leap_cycles) simp_all
    have 3: "n = 146097 * a + 146097"
      using last_of_400 z a b n' by linarith
    have 4: "1 \<le> y - 1" using a last_of_400 z by (simp add: y_def)
    show ?thesis
      using 1 2 3 4 last_of_400 unfolding eq
      by (simp add: ymd2ord_def days_before_month_def days_in_month_def DAYS_BEFORE_MONTH_def
          DAYS_IN_MONTH_def)
  next
    case last_of_4
    have z: "r4 = 0" using last_of_4 c d by linarith
    have c23: "c \<le> 23" using last_of_4 b c d by linarith
    have yy: "y - 1 = 400 * a + 100 * b + 4 * c + 3 + 1"
      using last_of_4 by (simp add: y_def)
    have 1: "days_before_year (y - 1) = 146097 * a + 36524 * b + 1461 * c + 365 * 3"
      unfolding yy by (rule days_before_year_cycles) (use b c c24 last_of_4 in simp_all)
    have 2: "is_leap (y - 1)"
      unfolding yy by (subst is_leap_cycles) (use b c c23 c24 last_of_4 in simp_all)
    have 3: "n = 146097 * a + 36524 * b + 1461 * c + 1461"
      using last_of_4 z a b c d n' by linarith
    have 4: "1 \<le> y - 1" using a b c last_of_4 by (simp add: y_def)
    show ?thesis
      using 1 2 3 4 last_of_4 unfolding eq
      by (simp add: ymd2ord_def days_before_month_def days_in_month_def DAYS_BEFORE_MONTH_def
          DAYS_IN_MONTH_def)
  next
    case general
    have yy: "y = 400 * a + 100 * b + 4 * c + d + 1"
      by (simp add: y_def)
    have 1: "days_before_year y = 146097 * a + 36524 * b + 1461 * c + 365 * d"
      unfolding yy by (rule days_before_year_cycles) (use b c d c24 general in simp_all)
    have 2: "is_leap y = (d = 3 \<and> (c \<noteq> 24 \<or> b = 3))"
      unfolding yy by (rule is_leap_cycles) (use b c d c24 general in simp_all)
    have 3: "n = days_before_year y + r4 + 1"
      using 1 a b c d n' by linarith
    have 4: "1 \<le> y" using a b c d by (simp add: y_def)
    have 5: "r4 \<le> 364" using d by simp
    from yday2md_correct [OF d(3) 5 2]
    show ?thesis
      using 3 4 d(3) general unfolding eq
      by (auto simp: ymd2ord_def split: prod.splits)
  qed
qed

lemma utcfromtimestamp_int_correct:
  assumes "- 62135596800 \<le> t" "t \<le> 253402300799"
  shows "\<exists>dt. utcfromtimestamp_int env t = Inr dt \<and> valid_datetime dt \<and> microsecond dt = 0
           \<and> timegm dt = t"
proof -
  define n where "n = t div 86400 + 719163"
  have n: "1 \<le> n" "n \<le> 3652059"
    using assms unfolding n_def by linarith+
  obtain y m d where ymd: "ord2ymd n = (y, m, d)"
    by (cases "ord2ymd n") auto
  from ord2ymd_correct [OF n(1)] ymd
  have c: "1 \<le> y" "days_before_year y < n" "1 \<le> m" "m \<le> 12" "1 \<le> d"
    "d \<le> days_in_month y m" "ymd2ord y m d = n"
    by simp_all
  have y: "y \<le> 9999"
    using days_before_year_10000 [of y] c(2) n(2) by linarith
  define dt where "dt = \<lparr>year = y, month = m, day = d,
                hour = t mod 86400 div 3600, minute = t mod 3600 div 60, second = t mod 60,
                microsecond = 0\<rparr>"
  have 1: "utcfromtimestamp_int env t = Inr dt"
    using assms ymd by (simp add: utcfromtimestamp_int_def n_def [symmetric] dt_def)
  have h: "0 \<le> t mod 86400 div 3600" "t mod 86400 div 3600 < 24"
    "0 \<le> t mod 3600 div 60" "t mod 3600 div 60 < 60"
    by (simp_all add: pos_imp_zdiv_nonneg_iff)
  have 2: "valid_datetime dt"
    using c y h by (simp add: valid_datetime_def dt_def)
  have "t mod 86400 mod 3600 = t mod 3600" "t mod 3600 mod 60 = t mod 60"
    by (simp_all add: mod_mod_cancel)
  moreover have "t = 86400 * (t div 86400) + t mod 86400"
    "t mod 86400 = 3600 * (t mod 86400 div 3600) + t mod 86400 mod 3600"
    "t mod 3600 = 60 * (t mod 3600 div 60) + t mod 3600 mod 60"
    by simp_all
  ultimately
  have "(t div 86400) * 86400 + t mod 86400 div 3600 * 3600 + t mod 3600 div 60 * 60 + t mod 60 = t"
    by linarith
  then have 3: "timegm dt = t"
    using c(7) by (simp add: timegm_def dt_def n_def)
  show ?thesis using 1 2 3 by (auto simp: dt_def)
qed

subsection \<open>Decimal numerals\<close>

lemma digit_not_space: "is_digit c \<Longrightarrow> \<not> py_isspace c"
  by (auto simp: is_digit_def py_isspace_def)

lemma digit_not_special:
  "is_digit c \<Longrightarrow> c \<noteq> CHR ''_'' \<and> c \<noteq> CHR ''-'' \<and> c \<noteq> CHR ''+'' \<and> c \<noteq> CHR ''.''"
  by (auto simp: is_digit_def)

lemma dropWhile_hd: "xs \<noteq> [] \<Longrightarrow> \<not> P (hd xs) \<Longrightarrow> dropWhile P xs = xs"
  by (cases xs) auto

lemma strip_id:
  assumes "s \<noteq> []" "\<not> py_isspace (hd s)" "\<not> py_isspace (last s)"
  shows "strip s = s"
proof -
  have "dropWhile py_isspace s = s" using assms by (simp add: dropWhile_hd)
  moreover have "dropWhile py_isspace (rev s) = rev s"
    using assms by (simp add: dropWhile_hd hd_rev)
  ultimately show ?thesis by (simp add: strip_def)
qed

lemma span_digits:
  assumes "list_all is_digit xs" "ys = [] \<or> \<not> is_digit (hd ys)"
  shows "takeWhile is_digit (xs @ ys) = xs" "dropWhile is_digit (xs @ ys) = ys"
proof -
  have "takeWhile is_digit ys = []" "dropWhile is_digit ys = ys"
    using assms(2) by (cases ys; simp)+
  then show "takeWhile is_digit (xs @ ys) = xs" "dropWhile is_digit (xs @ ys) = ys"
    using assms(1) by (induction xs) auto
qed

lemma foldl_digits:
  "foldl (\<lambda>a c. 10 * a + digit_val c) a s = a * 10 ^ length s + int_of_digits s"
proof (induction s arbitrary: a)
  case Nil
  then show ?case by (simp add: int_of_digits_def)
next
  case (Cons c s)
  have "foldl (\<lambda>a c. 10 * a + digit_val c) a (c # s) =
          (10 * a + digit_val c) * 10 ^ length s + int_of_digits s"
    by (simp add: Cons.IH)
  moreover have "int_of_digits (c # s) = digit_val c * 10 ^ length s + int_of_digits s"
    by (simp add: int_of_digits_def Cons.IH [of "digit_val c"])
  ultimately show ?case by (simp add: algebra_simps)
qed

lemma int_of_digits_Cons: "int_of_digits (c # s) = digit_val c * 10 ^ length s + int_of_digits s"
  using foldl_digits [of "digit_val c" s] by (simp add: int_of_digits_def)

lemma int_of_digits_append:
  "int_of_digits (xs @ ys) = int_of_digits xs * 10 ^ length ys + int_of_digits ys"
  using foldl_digits [of "int_of_digits xs" ys] by (simp add: int_of_digits_def)

lemma digits_value_eq: "digits_value s = of_nat (int_of_digits s)"
  by (induction s) (simp_all add: int_of_digits_Cons, simp add: int_of_digits_def)

lemma fraction_value_eq: "fraction_value s = of_nat (int_of_digits s) / 10 ^ length s"
  by (induction s) (simp_all add: int_of_digits_Cons field_simps, simp add: int_of_digits_def)

lemma Decimal_str_decimal_text:
  assumes "ip \<noteq> []" "list_all is_digit ip" "list_all is_digit fp"
  shows "Decimal_str (decimal_text neg ip fp) =
           Inr (Dec neg (int_of_digits (ip @ fp)) (- int (length fp)))"
proof -
  define body where "body = ip @ (if fp = [] then [] else CHR ''.'' # fp)"
  define tail where "tail = (if fp = [] then [] else CHR ''.'' # fp)"
  have t: "decimal_text neg ip fp = (if neg then ''-'' else []) @ body"
    by (simp add: decimal_text_def body_def)
  have body: "body = ip @ tail" by (simp add: body_def tail_def)
  have hd_ip: "is_digit (hd ip)" using assms(1,2) by (cases ip) auto
  have last_body: "is_digit (last body)"
    using assms by (auto simp: body_def list_all_iff)
  have ne: "body \<noteq> []" using assms(1) by (simp add: body_def)
  have hd_body: "hd body = hd ip" using assms(1) by (simp add: body_def)
  have all: "\<forall>c \<in> set (decimal_text neg ip fp). c \<noteq> CHR ''_''"
    using assms(2,3) digit_not_special by (auto simp: decimal_text_def list_all_iff)
  have s: "strip (decimal_text neg ip fp) = decimal_text neg ip fp"
  proof (rule strip_id)
    show "decimal_text neg ip fp \<noteq> []" using ne by (simp add: t)
    have "hd (decimal_text neg ip fp) = (if neg then CHR ''-'' else hd ip)"
      using ne hd_body by (simp add: t)
    then show "\<not> py_isspace (hd (decimal_text neg ip fp))"
      using hd_ip by (simp add: digit_not_space) (simp add: py_isspace_def)
    show "\<not> py_isspace (last (decimal_text neg ip fp))"
      using last_body ne by (simp add: t digit_not_space)
  qed
  have f: "filter (\<lambda>c. c \<noteq> CHR ''_'') (decimal_text neg ip fp) = decimal_text neg ip fp"
    using all by (simp add: filter_id_conv)
  have sg: "take_sign (decimal_text neg ip fp) = (neg, body)"
  proof (cases neg)
    case True
    then show ?thesis using t by simp
  next
    case False
    obtain c r where cr: "body = c # r" using ne by (cases body) auto
    then have "is_digit c" using hd_ip hd_body by simp
    then show ?thesis using False cr digit_not_special [of c] t by auto
  qed
  have st: "starts_number body"
  proof -
    obtain c r where cr: "body = c # r" using ne by (cases body) auto
    then have "is_digit c" using hd_ip hd_body by simp
    then show ?thesis using cr by (cases r) auto
  qed
  have tl: "tail = [] \<or> \<not> is_digit (hd tail)"
    by (auto simp: tail_def is_digit_def)
  have tw: "takeWhile is_digit body = ip" and dw: "dropWhile is_digit body = tail"
    unfolding body using assms(2) tl by (rule span_digits)+
  have fr: "take_frac tail = (fp, [])"
    using assms(3) span_digits [of fp "[]"] by (auto simp: tail_def)
  show ?thesis
    by (simp add: Decimal_str_def s f sg st tw dw fr)
qed

lemma dec_value_decimal_text:
  "dec_value (Dec neg (int_of_digits (ip @ fp)) (- int (length fp))) =
     Some (decimal_text_value neg ip fp)"
  by (simp add: decimal_text_value_def digits_value_eq fraction_value_eq int_of_digits_append
      field_simps)

lemma Decimal_decimal_text:
  assumes "ip \<noteq> []" "list_all is_digit ip" "list_all is_digit fp"
  shows "\<exists>d. Decimal env (JStr (decimal_text neg ip fp)) = Inr d
           \<and> dec_value d = Some (decimal_text_value neg ip fp)"
  using Decimal_str_decimal_text [OF assms] dec_value_decimal_text [of neg ip fp] by simp

subsection \<open>Trades\<close>

lemma trade_payload_items:
  "getitem trade_payload ''@type'' = Inr (JStr ''AnonymousTrade'')"
  "getitem trade_payload ''time'' = Inr (JList (JInt 1700000000 # []))"
  "getitem trade_payload ''current_order_id'' = Inr (JInt 42)"
  "getitem trade_payload ''trade_pair'' = Inr (JStr ''BTC_USD'')"
  "getitem trade_payload ''amount'' = Inr (JStr (decimal_text False ''1'' ''5''))"
  "getitem trade_payload ''price'' = Inr (JStr (decimal_text False ''30000'' ''25''))"
  by (simp_all add: trade_payload_def decimal_text_def)

text \<open>
  C2. For a payload of type \<open>AnonymousTrade\<close> whose \<open>time[0]\<close> is an integer \<open>t\<close> within the
  years 1 to 9999 and whose \<open>amount\<close> and \<open>price\<close> are decimal numerals, with the trades
  callback registered, exactly one trades call is scheduled. Its timestamp is a date and
  time of the calendar that lies \<open>t\<close> whole seconds after the epoch in UTC; its order id and
  trade pair are those of the payload; its amount and price are decimals whose values are
  the rational numbers the two strings denote, digit for digit, with no rounding. In
  particular the envelope of the spec's scenario, received as a text frame, gives the
  single call with 2023-11-14T22:13:20, 42, \<open>BTC_USD\<close>, 1.5 (15 times \<open>10^-1\<close>) and
  30000.25 (3000025 times \<open>10^-2\<close>).
\<close>

theorem anonymous_trade_arguments:
  assumes "getitem payload ''@type'' = Inr (JStr ''AnonymousTrade'')"
    and "getitem payload ''time'' = Inr (JList (JInt t # ts))"
    and "- 62135596800 \<le> t" and "t \<le> 253402300799"
    and "getitem payload ''current_order_id'' = Inr current_order_id"
    and "getitem payload ''trade_pair'' = Inr trade_pair"
    and "getitem payload ''amount'' = Inr (JStr (decimal_text a_neg a_int a_frac))"
    and "a_int \<noteq> []" and "list_all is_digit a_int" and "list_all is_digit a_frac"
    and "getitem payload ''price'' = Inr (JStr (decimal_text p_neg p_int p_frac))"
    and "p_int \<noteq> []" and "list_all is_digit p_int" and "list_all is_digit p_frac"
  shows "(\<exists>timestamp amount price.
            dispatch env ob True payload =
              Inr [TradesCall timestamp current_order_id trade_pair amount price]
            \<and> valid_datetime timestamp \<and> microsecond timestamp = 0 \<and> timegm timestamp = t
            \<and> dec_value amount = Some (decimal_text_value a_neg a_int a_frac)
            \<and> dec_value price = Some (decimal_text_value p_neg p_int p_frac))
         \<and> run example_env [text_frame trade_text] None False True (0::nat) =
             (0, [TradesCall \<lparr>year = 2023, month = 11, day = 14, hour = 22, minute = 13,
                              second = 20, microsecond = 0\<rparr>
                    (JInt 42) (JStr ''BTC_USD'') (Dec False 15 (- 1)) (Dec False 3000025 (- 2))],
              Receiving)
         \<and> dec_value (Dec False 15 (- 1)) = Some (3 / 2)
         \<and> dec_value (Dec False 3000025 (- 2)) = Some (120001 / 4)"
proof -
  obtain timestamp where ts: "utcfromtimestamp_int env t = Inr timestamp"
    "valid_datetime timestamp" "microsecond timestamp = 0" "timegm timestamp = t"
    using utcfromtimestamp_int_correct [OF assms(3,4)] by blast
  obtain amount where am: "Decimal env (JStr (decimal_text a_neg a_int a_frac)) = Inr amount"
    "dec_value amount = Some (decimal_text_value a_neg a_int a_frac)"
    using Decimal_decimal_text [OF assms(8,9,10)] by blast
  obtain price where pr: "Decimal env (JStr (decimal_text p_neg p_int p_frac)) = Inr price"
    "dec_value price = Some (decimal_text_value p_neg p_int p_frac)"
    using Decimal_decimal_text [OF assms(12,13,14)] by blast
  have "dispatch env ob True payload =
          Inr [TradesCall timestamp current_order_id trade_pair amount price]"
    using assms(1,2,5,6,7,11) ts(1) am(1) pr(1) by (simp add: dispatch_def)
  then have general: "\<exists>timestamp amount price.
            dispatch env ob True payload =
              Inr [TradesCall timestamp current_order_id trade_pair amount price]
            \<and> valid_datetime timestamp \<and> microsecond timestamp = 0 \<and> timegm timestamp = t
            \<and> dec_value amount = Some (decimal_text_value a_neg a_int a_frac)
            \<and> dec_value price = Some (decimal_text_value p_neg p_int p_frac)"
    using ts am pr by blast
  have scenario: "run example_env [text_frame trade_text] None False True (0::nat) =
             (0, [TradesCall \<lparr>year = 2023, month = 11, day = 14, hour = 22, minute = 13,
                              second = 20, microsecond = 0\<rparr>
                    (JInt 42) (JStr ''BTC_USD'') (Dec False 15 (- 1)) (Dec False 3000025 (- 2))],
              Receiving)"
    by (simp add: run_def receive_msg_examples reader_loop_try_def envelope_payload_examples
        dispatch_trade_payload)
  have decs: "dec_value (Dec False 15 (- 1)) = Some (3 / 2)"
    "dec_value (Dec False 3000025 (- 2)) = Some (120001 / 4)"
    by simp_all
  from general scenario decs show ?thesis by blast
qed

theorem anonymous_trade_arguments_witness:
  "dispatch example_env False True trade_payload =
     Inr [TradesCall \<lparr>year = 2023, month = 11, day = 14, hour = 22, minute = 13,
                      second = 20, microsecond = 0\<rparr>
            (JInt 42) (JStr ''BTC_USD'') (Dec False 15 (- 1)) (Dec False 3000025 (- 2))]
   \<and> valid_datetime \<lparr>year = 2023, month = 11, day = 14, hour = 22, minute = 13,
                      second = 20, microsecond = 0\<rparr>
   \<and> timegm \<lparr>year = 2023, month = 11, day = 14, hour = 22, minute = 13,
                      second = 20, microsecond = 0\<rparr> = 1700000000
   \<and> dec_value (Dec False 15 (- 1)) = Some (decimal_text_value False ''1'' ''5'')
   \<and> dec_value (Dec False 3000025 (- 2)) = Some (decimal_text_value False ''30000'' ''25'')
   \<and> decimal_text_value False ''1'' ''5'' = 3 / 2
   \<and> decimal_text_value False ''30000'' ''25'' = 120001 / 4"
proof -
  have r: "- 62135596800 \<le> (1700000000::int)" "(1700000000::int) \<le> 253402300799"
    by simp_all
  have d: "''1'' \<noteq> []" "list_all is_digit ''1''" "list_all is_digit ''5''"
    "''30000'' \<noteq> []" "list_all is_digit ''30000''" "list_all is_digit ''25''"
    by (simp_all add: is_digit_def)
  have v: "decimal_text_value False ''1'' ''5'' = 3 / 2"
    "decimal_text_value False ''30000'' ''25'' = 120001 / 4"
    by (simp_all add: decimal_text_value_def digit_val_def)
  show ?thesis
    using anonymous_trade_arguments [OF trade_payload_items(1,2) r trade_payload_items(3,4,5)
        d(1,2,3) trade_payload_items(6) d(4,5,6), of example_env False]
      dispatch_trade_payload [of False] v
    by auto
qed

end
